(* ===== verification/Prelude.thy ===== *)
theory Prelude
  imports Complex_Main
begin

text \<open>
  Shared vocabulary of the Mouth Trap development.  JavaScript numbers are modelled as
  \<^typ>\<open>real\<close>: the game only adds, subtracts, multiplies and compares small decimal
  constants, so IEEE-754 rounding is abstracted away (see the header of
  \<open>Spec2Isabelle\<close>).  Two JavaScript behaviours that \<^typ>\<open>real\<close> does not have are
  written out here: the \<open>NaN\<close> value that \<open>Number(...)\<close> may produce, and the
  remainder operator \<open>%\<close>, which truncates towards zero.  The theory also declares the
  collections of facts the component theories share.
\<close>

named_theorems game_consts "unfolding rules of the numeric constants of the game"
named_theorems game_state_simps "frame lemmas: fields an operation of the game does not write"

type_synonym px = real
type_synonym ms = real

subsection \<open>Numbers that may be NaN\<close>

text \<open>
  \<open>best\<close> is read with \<open>Number(...)\<close> from storage and may therefore be \<open>NaN\<close>;
  every comparison with \<open>NaN\<close> is false.
\<close>

datatype jsnum = Num real | NaN

fun js_gt :: "real \<Rightarrow> jsnum \<Rightarrow> bool" where
  "js_gt a (Num b) = (b < a)"
| "js_gt a NaN = False"

subsection \<open>The remainder operator\<close>

text \<open>
  \<open>n % d\<close> on numbers is \<open>n - d * trunc(n / d)\<close>, with the quotient truncated
  towards zero (ECMAScript, Number::remainder).  The divisor in the game is a canvas width,
  which is at least 320, so the \<open>NaN\<close> of a zero divisor never arises.
\<close>

definition js_trunc :: "real \<Rightarrow> int" where
  "js_trunc r = (if 0 \<le> r then \<lfloor>r\<rfloor> else - \<lfloor>- r\<rfloor>)"

definition js_rem :: "real \<Rightarrow> real \<Rightarrow> real" where
  "js_rem n d = n - d * of_int (js_trunc (n / d))"

lemma js_rem_nonneg_eq:
  assumes "0 \<le> n" "0 < d"
  shows "js_rem n d = n - d * of_int \<lfloor>n / d\<rfloor>"
  using assms by (simp add: js_rem_def js_trunc_def)

lemma js_rem_bounds:
  assumes "0 \<le> n" "0 < d"
  shows "0 \<le> js_rem n d \<and> js_rem n d < d"
proof -
  have fl: "of_int \<lfloor>n / d\<rfloor> \<le> n / d" "n / d < of_int \<lfloor>n / d\<rfloor> + 1"
    by simp_all
  have "d * of_int \<lfloor>n / d\<rfloor> \<le> d * (n / d)"
    by (rule mult_left_mono [OF fl(1)]) (use assms(2) in simp)
  moreover have "d * (n / d) < d * (of_int \<lfloor>n / d\<rfloor> + 1)"
    by (rule mult_strict_left_mono [OF fl(2) assms(2)])
  ultimately show ?thesis using assms by (simp add: js_rem_nonneg_eq algebra_simps)
qed

lemma js_rem_id [simp]:
  assumes "0 \<le> n" "n < d"
  shows "js_rem n d = n"
proof -
  have "\<lfloor>n / d\<rfloor> = 0"
    using assms by (simp add: floor_eq_iff divide_less_eq)
  with assms show ?thesis by (simp add: js_rem_nonneg_eq)
qed

end
