(* ===== verification/Geometry.thy ===== *)
theory Geometry
  imports Prelude
begin

text \<open>
  Collision detection (\<open>part_000\<close>, \<open>rectsOverlap\<close>, lines 243--247): the
  axis-aligned bounding-box test on two rectangles given by left, top, width and height.
  The lemmas show that the test is symmetric, that touching edges do not count, and that
  for rectangles of positive size it is exactly the statement that their open interiors
  meet (the abstract specification \<open>rect_interior\<close>).
\<close>

definition rectsOverlap ::
  "real \<Rightarrow> real \<Rightarrow> real \<Rightarrow> real \<Rightarrow> real \<Rightarrow> real \<Rightarrow> real \<Rightarrow> real \<Rightarrow> bool" where
  "rectsOverlap ax ay aw ah bx by bw bh \<longleftrightarrow>
     ax < bx + bw \<and> ax + aw > bx \<and> ay < by + bh \<and> ay + ah > by"

text \<open>The open point set a rectangle covers, the abstract meaning of the test.\<close>

definition rect_interior :: "real \<Rightarrow> real \<Rightarrow> real \<Rightarrow> real \<Rightarrow> (real \<times> real) set" where
  "rect_interior l t w h = {l <..< l + w} \<times> {t <..< t + h}"

lemma open_intervals_meet:
  fixes a b c d :: real
  assumes "a < b" "c < d"
  shows "{a <..< b} \<inter> {c <..< d} \<noteq> {} \<longleftrightarrow> a < d \<and> c < b"
proof
  assume "{a <..< b} \<inter> {c <..< d} \<noteq> {}"
  then show "a < d \<and> c < b" by auto
next
  assume lt: "a < d \<and> c < b"
  let ?m = "(max a c + min b d) / 2"
  have "?m \<in> {a <..< b} \<inter> {c <..< d}"
    using assms lt by (auto simp: field_simps)
  then show "{a <..< b} \<inter> {c <..< d} \<noteq> {}" by blast
qed

lemma rect_interior_meet:
  assumes "0 < aw" "0 < ah" "0 < bw" "0 < bh"
  shows "rect_interior ax ay aw ah \<inter> rect_interior bx by bw bh \<noteq> {} \<longleftrightarrow>
    ({ax <..< ax + aw} \<inter> {bx <..< bx + bw} \<noteq> {} \<and> {ay <..< ay + ah} \<inter> {by <..< by + bh} \<noteq> {})"
  by (auto simp: rect_interior_def Times_Int_Times)

text \<open>
  The collision predicate is symmetric: \<open>rectsOverlap(A, B) = rectsOverlap(B, A)\<close>
  for all pairs of rectangles.
\<close>

theorem rectsOverlap_sym:
  "rectsOverlap ax ay aw ah bx by bw bh = rectsOverlap bx by bw bh ax ay aw ah"
  by (auto simp: rectsOverlap_def)

text \<open>
  C24: for rectangles of positive width and height, \<open>rectsOverlap\<close> holds exactly when
  the open interiors of the two rectangles have a point in common.
\<close>

theorem rectsOverlap_interior:
  assumes "0 < aw" "0 < ah" "0 < bw" "0 < bh"
  shows "rectsOverlap ax ay aw ah bx by bw bh \<longleftrightarrow>
    rect_interior ax ay aw ah \<inter> rect_interior bx by bw bh \<noteq> {}"
  using assms by (simp add: rect_interior_meet open_intervals_meet rectsOverlap_def) arith

theorem rectsOverlap_interior_witness:
  "0 < (32::real) \<and> 0 < (32::real) \<and> 0 < (70::real) \<and> 0 < (100::real) \<and>
   rectsOverlap 400 50 32 32 400 0 70 100 \<and>
   rect_interior 400 50 32 32 \<inter> rect_interior 400 0 70 100 \<noteq> {}"
proof -
  have "rectsOverlap 400 50 32 32 400 0 70 100" by (simp add: rectsOverlap_def)
  with rectsOverlap_interior [of 32 32 70 100 400 50 400 0] show ?thesis by simp
qed

text \<open>
  Touching edges do not count as an overlap: a rectangle that starts exactly at the
  right edge, or exactly at the bottom edge, of another does not collide with it.
\<close>

theorem rectsOverlap_touching:
  "\<not> rectsOverlap ax ay aw ah (ax + aw) by bw bh \<and> \<not> rectsOverlap ax ay aw ah bx (ay + ah) bw bh"
  by (simp add: rectsOverlap_def)

end
