(* ===== verification/Config.thy ===== *)
theory Config
  imports Prelude
begin

text \<open>
  The tuning constants of the game (\<open>part_000\<close>, lines 148--156).  They are per-frame
  quantities (pixels per frame), except the spawn interval, which is in milliseconds.
  Each is a definition of its own, collected in \<open>game_consts\<close> so that proofs about
  concrete runs unfold them together.
\<close>

definition GRAVITY :: real where [game_consts]: "GRAVITY = 0.45"
definition FLAP_STRENGTH :: real where [game_consts]: "FLAP_STRENGTH = -7.5"
definition PIPE_GAP_MIN :: real where [game_consts]: "PIPE_GAP_MIN = 140"
definition PIPE_GAP_MAX :: real where [game_consts]: "PIPE_GAP_MAX = 200"
definition PIPE_WIDTH :: real where [game_consts]: "PIPE_WIDTH = 70"
definition PIPE_INTERVAL_MS :: real where [game_consts]: "PIPE_INTERVAL_MS = 1400"
definition SCROLL_SPEED :: real where [game_consts]: "SCROLL_SPEED = 2.6"
definition MOUTH_SIZE :: real where [game_consts]: "MOUTH_SIZE = 32"
definition GROUND_HEIGHT :: real where [game_consts]: "GROUND_HEIGHT = 80"

text \<open>The numeric limits written inline in \<open>spawnPipe\<close>, \<open>update\<close> and \<open>gameLoop\<close>.\<close>

definition TOP_LIMIT :: real where [game_consts]: "TOP_LIMIT = 40"
definition BOTTOM_MARGIN :: real where [game_consts]: "BOTTOM_MARGIN = 40"
definition REMOVAL_X :: real where [game_consts]: "REMOVAL_X = -10"
definition MAX_FRAME_MS :: real where [game_consts]: "MAX_FRAME_MS = 50"

lemma game_consts_pos [simp]:
  "0 < GRAVITY" "FLAP_STRENGTH < 0" "0 < PIPE_WIDTH" "0 < SCROLL_SPEED" "0 < MOUTH_SIZE"
  "0 < PIPE_INTERVAL_MS" "PIPE_GAP_MIN < PIPE_GAP_MAX" "0 < PIPE_GAP_MIN"
  by (simp_all add: game_consts)

end
