(* ===== verification/Canvas.thy ===== *)
theory Canvas
  imports Prelude
begin

text \<open>
  Canvas sizing (\<open>part_000\<close>, \<open>resizeCanvas\<close>, lines 32--55).  Both the game canvas
  and the landing canvas get the width \<open>max(320, floor(innerWidth))\<close> and the height
  \<open>min(floor(3/2 * width), innerHeight)\<close>; a canvas is only assigned when its size
  differs.  Viewport sizes are whole CSS pixels (\<open>window.innerWidth\<close> and
  \<open>innerHeight\<close> are integers), so \<open>Math.floor\<close> of \<open>innerWidth\<close> is the identity
  and \<open>floor(3/2 * w)\<close> is \<open>(3 * w) div 2\<close>.  Assigning \<open>width\<close> or \<open>height\<close>
  resets the canvas bitmap and its drawing state even when the value is unchanged; the field
  \<open>cv_resets\<close> counts these resets, so that the size guard of lines 45 and 51 is visible
  in the model.
\<close>

record canvas_dims =
  cv_width :: nat
  cv_height :: nat
  cv_resets :: nat

definition desired_dims :: "nat \<Rightarrow> nat \<Rightarrow> nat \<times> nat" where
  "desired_dims innerWidth innerHeight =
     (let desiredWidth = max 320 innerWidth;
          desiredHeightByAspect = (3 * desiredWidth) div 2
      in (desiredWidth, min desiredHeightByAspect innerHeight))"

definition assign_dims :: "nat \<times> nat \<Rightarrow> canvas_dims \<Rightarrow> canvas_dims" where
  "assign_dims wh c =
     (if cv_width c = fst wh \<and> cv_height c = snd wh then c
      else c\<lparr>cv_width := fst wh, cv_height := snd wh, cv_resets := Suc (cv_resets c)\<rparr>)"

definition resizeCanvas ::
  "nat \<Rightarrow> nat \<Rightarrow> canvas_dims \<times> canvas_dims \<Rightarrow> canvas_dims \<times> canvas_dims" where
  "resizeCanvas innerWidth innerHeight cs =
     (let d = desired_dims innerWidth innerHeight
      in (assign_dims d (fst cs), assign_dims d (snd cs)))"

lemma assign_dims_sel [simp]:
  "cv_width (assign_dims wh c) = fst wh" "cv_height (assign_dims wh c) = snd wh"
  by (simp_all add: assign_dims_def)

lemma desired_dims_bounds:
  "320 \<le> fst (desired_dims iw ih) \<and> snd (desired_dims iw ih) \<le> ih \<and>
   2 * snd (desired_dims iw ih) \<le> 3 * fst (desired_dims iw ih)"
  by (auto simp: desired_dims_def Let_def)

text \<open>
  C33: after \<open>resizeCanvas\<close> both canvases have the same size, at least 320 pixels wide,
  no taller than the viewport and no taller than 3/2 of their width.
\<close>

theorem resizeCanvas_bounds:
  "320 \<le> cv_width (fst (resizeCanvas iw ih cs)) \<and> cv_height (fst (resizeCanvas iw ih cs)) \<le> ih \<and>
   2 * cv_height (fst (resizeCanvas iw ih cs)) \<le> 3 * cv_width (fst (resizeCanvas iw ih cs)) \<and>
   cv_width (snd (resizeCanvas iw ih cs)) = cv_width (fst (resizeCanvas iw ih cs)) \<and>
   cv_height (snd (resizeCanvas iw ih cs)) = cv_height (fst (resizeCanvas iw ih cs))"
  using desired_dims_bounds [of iw ih] by (simp add: resizeCanvas_def Let_def)

text \<open>
  The size guard makes resizing idempotent: a second \<open>resize\<close> event with the same
  viewport assigns nothing, so neither canvas bitmap is reset again.
\<close>

theorem resizeCanvas_idem:
  "resizeCanvas iw ih (resizeCanvas iw ih cs) = resizeCanvas iw ih cs"
  by (simp add: resizeCanvas_def Let_def assign_dims_def)

end
