(* ===== verification/Storage.thy ===== *)
theory Storage
  imports Prelude
begin

text \<open>
  Best-score persistence (\<open>part_000\<close>, lines 170 and 283--286).  \<open>localStorage\<close> is
  a map from keys to strings; the game reads the key \<open>mouth_trap_best\<close> once, with
  \<open>Number(localStorage.getItem(key) || 0)\<close>, and writes \<open>String(best)\<close> under it
  whenever the score beats the best.

  \<open>Number(s)\<close> is the ECMAScript StringToNumber conversion, a builtin of the host.  The
  model computes it exactly on a fragment and returns \<open>None\<close> outside it:
  \<^item> after trimming the white space around it, an empty string is \<open>0\<close>;
  \<^item> a non-empty string of decimal digits is its decimal value;
  \<^item> a string with an ASCII character that no numeric literal contains (anything but
    digits, the signs, the point, the letters of exponents, of the prefixes
    \<open>0x\<close>/\<open>0o\<close>/\<open>0b\<close>, of hexadecimal digits and of \<open>Infinity\<close>) is \<open>NaN\<close>;
  \<^item> strings with non-ASCII characters, and the remaining numeric literals (signed,
    fractional, exponent and prefixed forms), are outside the fragment.
  Every string the game itself writes is in the fragment.
\<close>

type_synonym storage = "string \<Rightarrow> string option"

definition BEST_KEY :: string where
  "BEST_KEY = ''mouth_trap_best''"

definition js_space :: "char \<Rightarrow> bool" where
  "js_space c \<longleftrightarrow> of_char c \<in> {9, 10, 11, 12, 13, 32 :: nat}"

definition is_digit :: "char \<Rightarrow> bool" where
  "is_digit c \<longleftrightarrow> 48 \<le> (of_char c :: nat) \<and> (of_char c :: nat) \<le> 57"

definition literal_char :: "char \<Rightarrow> bool" where
  "literal_char c \<longleftrightarrow> is_digit c \<or> c \<in> set ''+-.eExXoObBabcdefABCDEFInfinity''"

definition digit_value :: "char \<Rightarrow> nat" where
  "digit_value c = of_char c - 48"

definition trim_js :: "string \<Rightarrow> string" where
  "trim_js s = rev (dropWhile js_space (rev (dropWhile js_space s)))"

definition digits_value :: "string \<Rightarrow> nat" where
  "digits_value s = foldl (\<lambda>acc c. 10 * acc + digit_value c) 0 s"

definition str_to_number :: "string \<Rightarrow> jsnum option" where
  "str_to_number s =
     (let t = trim_js s in
      if list_ex (\<lambda>c. 128 \<le> (of_char c :: nat)) s then None
      else if t = [] then Some (Num 0)
      else if list_all is_digit t then Some (Num (real (digits_value t)))
      else if list_ex (\<lambda>c. \<not> literal_char c \<and> \<not> js_space c) t then Some NaN
      else None)"

text \<open>\<open>String(n)\<close> for a natural number: its decimal digits, without leading zeros.\<close>

fun string_of_nat :: "nat \<Rightarrow> string" where
  "string_of_nat n =
     (if n < 10 then [char_of (48 + n)] else string_of_nat (n div 10) @ [char_of (48 + n mod 10)])"

text \<open>\<open>Number(localStorage.getItem(key) || 0)\<close>: \<open>null\<close> and the empty string are falsy.\<close>

definition load_best :: "storage \<Rightarrow> jsnum option" where
  "load_best st =
     (case st BEST_KEY of
        None \<Rightarrow> Some (Num 0)
      | Some s \<Rightarrow> if s = [] then Some (Num 0) else str_to_number s)"

definition persist_best :: "nat \<Rightarrow> storage \<Rightarrow> storage" where
  "persist_best n st = st(BEST_KEY \<mapsto> string_of_nat n)"

declare string_of_nat.simps [simp del]

lemma char_of_digit [simp]:
  assumes "d < 10"
  shows "(of_char (char_of (48 + d)) :: nat) = 48 + d"
  using assms by (simp add: of_char_of)

lemma digit_char:
  assumes "d < 10"
  shows "is_digit (char_of (48 + d)) \<and> digit_value (char_of (48 + d)) = d"
  using assms by (simp add: is_digit_def digit_value_def)

lemma digits_value_snoc: "digits_value (xs @ [c]) = 10 * digits_value xs + digit_value c"
  by (simp add: digits_value_def)

lemma string_of_nat_chars:
  "string_of_nat n \<noteq> [] \<and> list_all is_digit (string_of_nat n) \<and> digits_value (string_of_nat n) = n"
proof (induction n rule: string_of_nat.induct)
  case (1 n)
  show ?case
  proof (cases "n < 10")
    case True
    then show ?thesis
      using digit_char [of n] by (simp add: string_of_nat.simps [of n] digits_value_def)
  next
    case False
    with "1.IH" have IH: "list_all is_digit (string_of_nat (n div 10))"
      "digits_value (string_of_nat (n div 10)) = n div 10" by simp_all
    have "n mod 10 < 10" by simp
    then show ?thesis using False IH digit_char [of "n mod 10"]
      by (simp add: string_of_nat.simps [of n] digits_value_snoc)
  qed
qed

lemma digits_no_space: "list_all is_digit s \<Longrightarrow> trim_js s = s"
proof -
  assume d: "list_all is_digit s"
  have ns: "\<And>c. is_digit c \<Longrightarrow> \<not> js_space c" by (auto simp: is_digit_def js_space_def)
  have "dropWhile js_space s = s"
    using d ns by (cases s) auto
  moreover have "dropWhile js_space (rev s) = rev s"
    using d ns by (cases "rev s") (auto simp: list_all_iff dest: arg_cong [where f = set])
  ultimately show ?thesis by (simp add: trim_js_def)
qed

lemma digits_ascii: "list_all is_digit s \<Longrightarrow> \<not> list_ex (\<lambda>c. 128 \<le> (of_char c :: nat)) s"
  by (auto simp: list_all_iff list_ex_iff is_digit_def)

lemma str_to_number_string_of_nat: "str_to_number (string_of_nat n) = Some (Num (real n))"
proof -
  let ?s = "string_of_nat n"
  have "list_all is_digit ?s" "digits_value ?s = n" "?s \<noteq> []"
    using string_of_nat_chars by blast+
  then show ?thesis by (simp add: str_to_number_def digits_no_space digits_ascii)
qed

lemma string_of_nat_nonempty: "string_of_nat n \<noteq> []"
  using string_of_nat_chars by blast

lemma load_best_persist_best: "load_best (persist_best n st) = Some (Num (real n))"
  by (simp add: load_best_def persist_best_def str_to_number_string_of_nat string_of_nat_nonempty)

lemma load_best_nonneg: "load_best st = Some (Num b) \<Longrightarrow> 0 \<le> b"
  by (auto simp: load_best_def str_to_number_def Let_def split: option.splits if_splits)

lemma in_dropWhile: "c \<in> set s \<Longrightarrow> \<not> P c \<Longrightarrow> c \<in> set (dropWhile P s)"
  by (induction s) auto

lemma in_trim_js: "c \<in> set s \<Longrightarrow> \<not> js_space c \<Longrightarrow> c \<in> set (trim_js s)"
  by (simp add: trim_js_def in_dropWhile)

text \<open>
  C26: a stored value that is not a number is read back as NaN, not as 0: when the stored
  string is ASCII and holds a character no numeric literal contains, the best score the game
  starts with is \<open>NaN\<close>.
\<close>

theorem load_best_garbage:
  assumes "st BEST_KEY = Some s"
    and "\<not> list_ex (\<lambda>c. 128 \<le> (of_char c :: nat)) s"
    and "list_ex (\<lambda>c. \<not> literal_char c \<and> \<not> js_space c) s"
  shows "load_best st = Some NaN"
proof -
  from assms(3) obtain c where c: "c \<in> set s" "\<not> literal_char c" "\<not> js_space c"
    by (auto simp: list_ex_iff)
  then have t: "c \<in> set (trim_js s)" by (simp add: in_trim_js)
  then have "trim_js s \<noteq> []" "s \<noteq> []" using c by auto
  moreover have "\<not> list_all is_digit (trim_js s)"
    using t c(2) by (auto simp: list_all_iff literal_char_def)
  moreover have "list_ex (\<lambda>c. \<not> literal_char c \<and> \<not> js_space c) (trim_js s)"
    using t c by (auto simp: list_ex_iff)
  ultimately show ?thesis using assms(1,2)
    by (simp add: load_best_def str_to_number_def Let_def)
qed

theorem load_best_garbage_witness:
  "(Map.empty(BEST_KEY \<mapsto> ''undefined'')) BEST_KEY = Some ''undefined'' \<and>
   \<not> list_ex (\<lambda>c. 128 \<le> (of_char c :: nat)) ''undefined'' \<and>
   list_ex (\<lambda>c. \<not> literal_char c \<and> \<not> js_space c) ''undefined'' \<and>
   load_best (Map.empty(BEST_KEY \<mapsto> ''undefined'')) = Some NaN"
proof -
  have h: "\<not> list_ex (\<lambda>c. 128 \<le> (of_char c :: nat)) ''undefined''"
     "list_ex (\<lambda>c. \<not> literal_char c \<and> \<not> js_space c) ''undefined''"
    by (simp_all add: literal_char_def js_space_def is_digit_def)
  show ?thesis using load_best_garbage [OF _ h] h by simp
qed
lemma persist_best_twice [simp]: "persist_best m (persist_best n st) = persist_best m st"
  by (simp add: persist_best_def)

lemma persist_best_other [simp]: "k \<noteq> BEST_KEY \<Longrightarrow> persist_best n st k = st k"
  by (simp add: persist_best_def)

text \<open>
  C25: writing a best score and reading it back is the identity: after
  \<open>localStorage.setItem(key, String(n))\<close>, \<open>Number(localStorage.getItem(key) || 0)\<close>
  is \<open>n\<close>, for every natural number \<open>n\<close>.
\<close>

theorem load_persist: "load_best (persist_best n st) = Some (Num (real n))"
  unfolding load_best_def persist_best_def
  using str_to_number_string_of_nat [of n] string_of_nat_nonempty [of n] by simp

end
