(* ===== verification/Assets.thy ===== *)
theory Assets
  imports Prelude
begin

text \<open>
  Image loading (\<open>part_000\<close>, lines 72--141).  Four images are requested when the script
  starts: the background texture (\<open>backgroundtexture.png\<close>, retried once as
  \<open>backgroundtexture.jpg\<close> on error), the teeth strip \<open>groundImg\<close>, the player sprite
  \<open>mouthImg\<close>, and an optional \<open>img#tongue-img\<close> element of the page.  Each request is
  pending, loaded or broken (\<open>img_state\<close>; an image is \<open>complete\<close> once its current
  request is loaded or broken).  The browser delivers one \<open>load\<close> or \<open>error\<close> event per
  request (\<open>asset_event\<close>); \<open>asset_step\<close> sets the request's state as the browser does
  and then runs the handler the code installs, if any.  \<open>bg_requests\<close> counts the
  assignments to \<open>img.src\<close>; it is read by the lemmas only.  The redraw of the landing
  page in the \<open>load\<close> handlers paints and writes no variable; it is part of \<open>Draw\<close>.
\<close>

datatype img_state = Pending | Loaded | Broken

fun complete :: "img_state \<Rightarrow> bool" where
  "complete Pending = False"
| "complete Loaded = True"
| "complete Broken = True"

record assets =
  bg_src :: string
  bg_req :: img_state
  triedJpg :: bool
  bgImg :: bool
  bgPattern :: bool
  bg_requests :: nat
  groundImg :: img_state
  groundLoaded :: bool
  mouthImg :: img_state
  tongueImg :: "img_state option"

datatype asset_event =
  BgLoad bool | BgError | GroundLoad | GroundError | MouthLoad | MouthError
  | TongueLoad | TongueError

definition BG_PNG :: string where "BG_PNG = ''backgroundtexture.png''"
definition BG_JPG :: string where "BG_JPG = ''backgroundtexture.jpg''"

text \<open>
  The state after the script's loading code ran (lines 82--141): every \<open>src\<close> assigned
  once; \<open>tongue\<close> is the state of the page's \<open>img#tongue-img\<close>, \<open>None\<close> when the page
  has no such image element.
\<close>

definition init_assets :: "img_state option \<Rightarrow> assets" where
  "init_assets tongue =
     \<lparr>bg_src = BG_PNG, bg_req = Pending, triedJpg = False, bgImg = False, bgPattern = False,
      bg_requests = 1, groundImg = Pending, groundLoaded = False, mouthImg = Pending,
      tongueImg = tongue\<rparr>"

text \<open>
  \<open>img.onload\<close> (lines 87--100): \<open>bgImg = img\<close>, then \<open>createPattern\<close>, whose failure
  the \<open>catch\<close> turns into \<open>bgPattern = null\<close>; \<open>pattern_ok\<close> says whether it succeeded.
\<close>

definition bg_onload :: "bool \<Rightarrow> assets \<Rightarrow> assets" where
  "bg_onload pattern_ok a = a\<lparr>bgImg := True, bgPattern := pattern_ok\<rparr>"

text \<open>\<open>img.onerror\<close> (lines 103--108): retry once with the JPEG.\<close>

definition bg_onerror :: "assets \<Rightarrow> assets" where
  "bg_onerror a =
     (if \<not> triedJpg a
      then a\<lparr>triedJpg := True, bg_src := BG_JPG, bg_req := Pending,
             bg_requests := Suc (bg_requests a)\<rparr>
      else a)"

text \<open>\<open>groundImg.onload\<close> (lines 119--125).\<close>

definition ground_onload :: "assets \<Rightarrow> assets" where
  "ground_onload a = a\<lparr>groundLoaded := True\<rparr>"

text \<open>
  One event of the browser.  An event arrives only for a pending request; the others are
  never delivered and leave the state alone.  \<open>groundImg\<close>, \<open>mouthImg\<close> and the tongue
  image have no \<open>error\<close> handler.
\<close>

fun asset_step :: "asset_event \<Rightarrow> assets \<Rightarrow> assets" where
  "asset_step (BgLoad ok) a =
     (if bg_req a = Pending then bg_onload ok (a\<lparr>bg_req := Loaded\<rparr>) else a)"
| "asset_step BgError a =
     (if bg_req a = Pending then bg_onerror (a\<lparr>bg_req := Broken\<rparr>) else a)"
| "asset_step GroundLoad a =
     (if groundImg a = Pending then ground_onload (a\<lparr>groundImg := Loaded\<rparr>) else a)"
| "asset_step GroundError a =
     (if groundImg a = Pending then a\<lparr>groundImg := Broken\<rparr> else a)"
| "asset_step MouthLoad a =
     (if mouthImg a = Pending then a\<lparr>mouthImg := Loaded\<rparr> else a)"
| "asset_step MouthError a =
     (if mouthImg a = Pending then a\<lparr>mouthImg := Broken\<rparr> else a)"
| "asset_step TongueLoad a =
     (if tongueImg a = Some Pending then a\<lparr>tongueImg := Some Loaded\<rparr> else a)"
| "asset_step TongueError a =
     (if tongueImg a = Some Pending then a\<lparr>tongueImg := Some Broken\<rparr> else a)"

definition asset_run :: "asset_event list \<Rightarrow> assets \<Rightarrow> assets" where
  "asset_run es a = fold asset_step es a"

text \<open>
  The condition \<open>waitForImages\<close> polls (line 549): \<open>bgImg\<close> is set only by the
  \<open>load\<close> handler, when its image is complete; \<open>groundImg\<close> is complete once its request
  has ended, loaded or broken.
\<close>

definition images_ready :: "assets \<Rightarrow> bool" where
  "images_ready a \<longleftrightarrow> (bgImg a \<and> complete (bg_req a)) \<or> complete (groundImg a)"

text \<open>
  Well-formedness of the loader's state: a pattern only from a loaded background, the
  background variable set exactly when its request loaded, the JPEG requested exactly when
  the retry flag is set and then as the second and last request, \<open>groundLoaded\<close> exactly
  when the teeth image loaded.
\<close>

definition asset_wf :: "assets \<Rightarrow> bool" where
  "asset_wf a \<longleftrightarrow>
     (bgPattern a \<longrightarrow> bgImg a) \<and> (bgImg a \<longleftrightarrow> bg_req a = Loaded) \<and>
     bg_src a = (if triedJpg a then BG_JPG else BG_PNG) \<and>
     bg_requests a = (if triedJpg a then 2 else 1) \<and>
     (groundLoaded a \<longleftrightarrow> groundImg a = Loaded)"

text \<open>
  The work left to the loader: two possible background requests before the retry, one
  after it, and one per other pending image.
\<close>

fun pending_work :: "assets \<Rightarrow> nat" where
  "pending_work a =
     (case bg_req a of Pending \<Rightarrow> if triedJpg a then 1 else 2 | _ \<Rightarrow> 0) +
     (if groundImg a = Pending then 1 else 0) + (if mouthImg a = Pending then 1 else 0) +
     (if tongueImg a = Some Pending then 1 else 0)"

text \<open>The number of events of a sequence that change the loader's state.\<close>

fun changes :: "asset_event list \<Rightarrow> assets \<Rightarrow> nat" where
  "changes [] a = 0"
| "changes (e # es) a = (if asset_step e a = a then 0 else 1) + changes es (asset_step e a)"

lemma asset_wf_init: "asset_wf (init_assets t)"
  by (simp add: asset_wf_def init_assets_def)

lemma asset_step_wf: "asset_wf a \<Longrightarrow> asset_wf (asset_step e a)"
  by (cases e) (auto simp: asset_wf_def bg_onload_def bg_onerror_def ground_onload_def)

lemma asset_run_Cons [simp]: "asset_run (e # es) a = asset_run es (asset_step e a)"
  by (simp add: asset_run_def)

lemma asset_run_Nil [simp]: "asset_run [] a = a"
  by (simp add: asset_run_def)

lemma asset_run_append: "asset_run (xs @ ys) a = asset_run ys (asset_run xs a)"
  by (simp add: asset_run_def)

lemma asset_step_progress:
  "asset_step e a \<noteq> a \<Longrightarrow> pending_work (asset_step e a) < pending_work a"
  by (cases e)
     (auto simp: bg_onload_def bg_onerror_def ground_onload_def split: if_splits img_state.splits)

lemma changes_le_work: "changes es a \<le> pending_work a"
proof (induction es arbitrary: a)
  case Nil
  then show ?case by simp
next
  case (Cons e es)
  show ?case
  proof (cases "asset_step e a = a")
    case True
    with Cons.IH [of a] show ?thesis by simp
  next
    case False
    with asset_step_progress [OF False] Cons.IH [of "asset_step e a"] show ?thesis by simp
  qed
qed

lemma images_ready_step: "images_ready a \<Longrightarrow> images_ready (asset_step e a)"
  by (cases e) (auto simp: images_ready_def bg_onload_def bg_onerror_def ground_onload_def)

lemma images_ready_run: "images_ready a \<Longrightarrow> images_ready (asset_run es a)"
  by (induction es arbitrary: a) (simp_all add: images_ready_step)

lemma complete_step:
  "complete (groundImg a) \<Longrightarrow> groundImg (asset_step e a) = groundImg a"
  "complete (mouthImg a) \<Longrightarrow> mouthImg (asset_step e a) = mouthImg a"
  by (cases e; cases "groundImg a"; cases "mouthImg a";
      simp add: bg_onload_def bg_onerror_def ground_onload_def)+

text \<open>
  C16: the loader's state is well formed after every sequence of browser events.
\<close>

theorem asset_run_wf: "asset_wf (asset_run es (init_assets t))"
proof -
  have "asset_wf a \<Longrightarrow> asset_wf (asset_run es a)" for a
    by (induction es arbitrary: a) (simp_all add: asset_step_wf)
  then show ?thesis using asset_wf_init by blast
qed

theorem asset_run_wf_witness:
  "asset_wf (asset_run [BgError, BgLoad False] (init_assets None)) \<and>
   bg_src (asset_run [BgError, BgLoad False] (init_assets None)) = BG_JPG"
  using asset_run_wf [of "[BgError, BgLoad False]" None]
  by (simp add: init_assets_def bg_onerror_def bg_onload_def)

text \<open>
  C13: image loading ends: whatever events the browser delivers, at most five of them
  change the loader's state (two background requests, the teeth, the sprite and the
  page's tongue image), so the retry on error cannot loop.
\<close>

theorem asset_loading_ends: "changes es (init_assets t) \<le> 5"
proof -
  have "pending_work (init_assets t) \<le> 5"
    by (cases t) (auto simp: init_assets_def)
  then show ?thesis using changes_le_work [of es "init_assets t"] by linarith
qed

end
