(* ===== verification/State.thy ===== *)
theory State
  imports Config Canvas Storage Assets
begin

text \<open>
  The game's mutable state.  The source keeps it in variables of one closure
  (\<open>part_000\<close>, lines 15--26 and 158--174); the model gathers them in the record
  \<open>game\<close>, which every operation takes and returns.  A teeth obstacle is the object
  literal pushed by \<open>spawnPipe\<close> (lines 231--237), the record \<open>pipe\<close>.  Besides the
  closure's variables the record holds the two canvases' sizes, the \<open>localStorage\<close>
  map, the image loader's variables \<open>assets\<close> (theory \<open>Assets\<close>), and \<open>frames\<close>,
  the number of \<open>gameLoop\<close> callbacks requested with \<open>requestAnimationFrame\<close> and
  not yet run.
\<close>

record pipe =
  pipe_x :: real
  pipe_width :: real
  topHeight :: real
  gap :: real
  passed :: bool

record game =
  canvas :: canvas_dims
  landingCanvas :: canvas_dims
  showLanding :: bool
  mouthY :: real
  mouthX :: real
  mouthVelY :: real
  pipes :: "pipe list"
  lastPipeAt :: real
  score :: nat
  best :: jsnum
  isRunning :: bool
  isGameOver :: bool
  lastTimestamp :: real
  backgroundOffset :: real
  storage :: storage
  frames :: nat
  assets :: assets

text \<open>\<open>canvas.width\<close> and \<open>canvas.height\<close> as numbers.\<close>

abbreviation cw :: "'a game_scheme \<Rightarrow> real" where
  "cw g \<equiv> real (cv_width (canvas g))"

abbreviation ch :: "'a game_scheme \<Rightarrow> real" where
  "ch g \<equiv> real (cv_height (canvas g))"

text \<open>
  A canvas element is created 300 by 150 pixels; the script resizes both canvases first
  (line 58) and then initialises its variables from the game canvas (lines 160--174),
  with the best score \<open>b\<close> read from storage.
\<close>

definition default_canvas :: canvas_dims where
  "default_canvas = \<lparr>cv_width = 300, cv_height = 150, cv_resets = 0\<rparr>"

definition init_game :: "nat \<Rightarrow> nat \<Rightarrow> storage \<Rightarrow> jsnum \<Rightarrow> img_state option \<Rightarrow> game" where
  "init_game innerWidth innerHeight st b tongue =
     (let cs = resizeCanvas innerWidth innerHeight (default_canvas, default_canvas)
      in \<lparr>canvas = fst cs, landingCanvas = snd cs, showLanding = True,
          mouthY = real (cv_height (fst cs)) / 2, mouthX = real (cv_width (fst cs)) * 0.28,
          mouthVelY = 0, pipes = [], lastPipeAt = 0, score = 0, best = b,
          isRunning = False, isGameOver = False, lastTimestamp = 0, backgroundOffset = 0,
          storage = st, frames = 0, assets = init_assets tongue\<rparr>)"

definition resetGame :: "game \<Rightarrow> game" where
  "resetGame g =
     g\<lparr>mouthY := ch g / 2, mouthX := cw g * 0.28, mouthVelY := 0, pipes := [],
       lastPipeAt := 0, score := 0, isGameOver := False, backgroundOffset := 0\<rparr>"

lemma init_game_sel [simp]:
  "cv_width (canvas (init_game iw ih st b tg)) = fst (desired_dims iw ih)"
  "cv_height (canvas (init_game iw ih st b tg)) = snd (desired_dims iw ih)"
  "landingCanvas (init_game iw ih st b tg) = canvas (init_game iw ih st b tg)"
  "showLanding (init_game iw ih st b tg)"
  "mouthY (init_game iw ih st b tg) = real (snd (desired_dims iw ih)) / 2"
  "mouthX (init_game iw ih st b tg) = real (fst (desired_dims iw ih)) * 0.28"
  "mouthVelY (init_game iw ih st b tg) = 0" "pipes (init_game iw ih st b tg) = []"
  "lastPipeAt (init_game iw ih st b tg) = 0" "score (init_game iw ih st b tg) = 0"
  "best (init_game iw ih st b tg) = b" "\<not> isRunning (init_game iw ih st b tg)"
  "\<not> isGameOver (init_game iw ih st b tg)" "lastTimestamp (init_game iw ih st b tg) = 0"
  "backgroundOffset (init_game iw ih st b tg) = 0" "storage (init_game iw ih st b tg) = st"
  "frames (init_game iw ih st b tg) = 0" "assets (init_game iw ih st b tg) = init_assets tg"
  by (simp_all add: init_game_def resizeCanvas_def Let_def)

lemma resetGame_frame [game_state_simps]:
  "canvas (resetGame g) = canvas g" "landingCanvas (resetGame g) = landingCanvas g"
  "showLanding (resetGame g) = showLanding g" "best (resetGame g) = best g"
  "isRunning (resetGame g) = isRunning g" "lastTimestamp (resetGame g) = lastTimestamp g"
  "storage (resetGame g) = storage g" "frames (resetGame g) = frames g"
  "assets (resetGame g) = assets g"
  by (simp_all add: resetGame_def)

end
