(* ===== verification/Physics.thy ===== *)
theory Physics
  imports State
begin

text \<open>
  The player's vertical motion, the first block of \<open>update\<close> (\<open>part_000\<close>, lines
  252--265): gravity is added to the velocity and the velocity to the position once per
  frame, whatever the frame's duration; a position above the ceiling is clamped to 0 with
  the velocity zeroed; a position below the ground line \<open>groundY\<close> is clamped to it and
  ends the game.  The lemmas bound the position after the step and describe free fall.
\<close>

definition groundY :: "'a game_scheme \<Rightarrow> real" where
  "groundY g = ch g - GROUND_HEIGHT - MOUTH_SIZE"

definition physics :: "game \<Rightarrow> game" where
  "physics g =
     (let v = mouthVelY g + GRAVITY;
          y = mouthY g + v;
          g1 = (if y < 0 then g\<lparr>mouthY := 0, mouthVelY := 0\<rparr>
                else g\<lparr>mouthY := y, mouthVelY := v\<rparr>)
      in if mouthY g1 > groundY g1 then g1\<lparr>mouthY := groundY g1, isGameOver := True\<rparr>
         else g1)"

lemma groundY_upd [simp]:
  "groundY (g\<lparr>mouthY := y\<rparr>) = groundY g" "groundY (g\<lparr>mouthVelY := v\<rparr>) = groundY g"
  "groundY (g\<lparr>isGameOver := b\<rparr>) = groundY g"
  by (simp_all add: groundY_def)

lemma physics_frame [game_state_simps]:
  "assets (physics g) = assets g" "canvas (physics g) = canvas g" "landingCanvas (physics g) = landingCanvas g"
  "showLanding (physics g) = showLanding g" "mouthX (physics g) = mouthX g"
  "pipes (physics g) = pipes g" "lastPipeAt (physics g) = lastPipeAt g"
  "score (physics g) = score g" "best (physics g) = best g"
  "isRunning (physics g) = isRunning g" "lastTimestamp (physics g) = lastTimestamp g"
  "backgroundOffset (physics g) = backgroundOffset g" "storage (physics g) = storage g"
  "frames (physics g) = frames g"
  by (simp_all add: physics_def Let_def)

lemma groundY_physics [simp]: "groundY (physics g) = groundY g"
  by (simp add: groundY_def physics_frame)

text \<open>The three outcomes of the step, one per branch of the code.\<close>

lemma physics_cases:
  "physics g =
     (let y = mouthY g + mouthVelY g + GRAVITY in
      if y < 0 then
        (if 0 > groundY g then g\<lparr>mouthY := groundY g, mouthVelY := 0, isGameOver := True\<rparr>
         else g\<lparr>mouthY := 0, mouthVelY := 0\<rparr>)
      else if y > groundY g then
        g\<lparr>mouthY := groundY g, mouthVelY := mouthVelY g + GRAVITY, isGameOver := True\<rparr>
      else g\<lparr>mouthY := y, mouthVelY := mouthVelY g + GRAVITY\<rparr>)"
  by (simp add: physics_def Let_def add.assoc)

text \<open>
  C6: after the physics step the player is never below the ground line, and, when the
  ground line is at or below the top of the canvas, never above the ceiling: the position is
  clamped to \<open>[0, groundY]\<close>.
\<close>

theorem physics_bounds:
  assumes "0 \<le> groundY g"
  shows "0 \<le> mouthY (physics g) \<and> mouthY (physics g) \<le> groundY g"
  using assms by (simp add: physics_cases Let_def)

theorem physics_bounds_witness:
  "0 \<le> groundY (init_game 360 640 Map.empty (Num 0) None) \<and>
   0 \<le> mouthY (physics (init_game 360 640 Map.empty (Num 0) None)) \<and>
   mouthY (physics (init_game 360 640 Map.empty (Num 0) None)) \<le> groundY (init_game 360 640 Map.empty (Num 0) None)"
proof -
  have h: "0 \<le> groundY (init_game 360 640 Map.empty (Num 0) None)"
    by (simp add: groundY_def desired_dims_def game_consts)
  show ?thesis using physics_bounds [OF h] h by simp
qed

text \<open>
  C7: only the ground is fatal: the physics step ends the game exactly when it was already
  over or the new position \<open>y + v + GRAVITY\<close>, after the ceiling clamp to 0, lies below
  the ground line; hitting the ceiling alone never ends it.
\<close>

theorem physics_game_over:
  "isGameOver (physics g) \<longleftrightarrow>
     isGameOver g \<or> groundY g < max 0 (mouthY g + mouthVelY g + GRAVITY)"
  by (auto simp: physics_cases Let_def)

text \<open>
  C8: the clamp to \<open>[0, groundY]\<close> is empty when the canvas is shorter than the ground
  strip and the sprite (\<open>groundY < 0\<close>, a canvas under 112 pixels high): the player then
  ends every physics step above the top of the canvas.
\<close>

theorem physics_short_canvas:
  assumes "groundY g < 0"
  shows "mouthY (physics g) < 0 \<and> isGameOver (physics g)"
  using assms by (auto simp: physics_cases Let_def)

theorem physics_short_canvas_witness:
  "groundY (init_game 360 100 Map.empty (Num 0) None) < 0 \<and>
   mouthY (physics (init_game 360 100 Map.empty (Num 0) None)) < 0 \<and>
   isGameOver (physics (init_game 360 100 Map.empty (Num 0) None))"
proof -
  have h: "groundY (init_game 360 100 Map.empty (Num 0) None) < 0"
    by (simp add: groundY_def desired_dims_def game_consts)
  show ?thesis using physics_short_canvas [OF h] h by simp
qed

text \<open>
  Free fall: from a position on the canvas with a non-negative velocity and no game
  over, one step moves the player strictly down to \<open>min(groundY, y + v + GRAVITY)\<close>,
  the velocity grows by \<open>GRAVITY\<close>, and the game ends exactly when \<open>y + v + GRAVITY\<close>
  passes the ground line.
\<close>

theorem physics_falls:
  assumes "0 \<le> mouthY g" "0 \<le> mouthVelY g" "\<not> isGameOver g" "mouthY g < groundY g"
  shows "mouthY g < mouthY (physics g) \<and>
    mouthY (physics g) = min (groundY g) (mouthY g + mouthVelY g + GRAVITY) \<and>
    mouthVelY (physics g) = mouthVelY g + GRAVITY \<and>
    (isGameOver (physics g) \<longleftrightarrow> groundY g < mouthY g + mouthVelY g + GRAVITY)"
proof -
  have "0 < mouthVelY g + GRAVITY" using assms(2) game_consts_pos(1) by linarith
  then show ?thesis using assms by (auto simp: physics_cases Let_def)
qed

theorem physics_falls_witness:
  "0 \<le> mouthY (init_game 360 540 Map.empty (Num 0) None) \<and>
   0 \<le> mouthVelY (init_game 360 540 Map.empty (Num 0) None) \<and>
   \<not> isGameOver (init_game 360 540 Map.empty (Num 0) None) \<and>
   mouthY (init_game 360 540 Map.empty (Num 0) None) < groundY (init_game 360 540 Map.empty (Num 0) None) \<and>
   mouthY (init_game 360 540 Map.empty (Num 0) None) < mouthY (physics (init_game 360 540 Map.empty (Num 0) None))"
proof -
  have h: "0 \<le> mouthY (init_game 360 540 Map.empty (Num 0) None)"
      "0 \<le> mouthVelY (init_game 360 540 Map.empty (Num 0) None)"
      "\<not> isGameOver (init_game 360 540 Map.empty (Num 0) None)"
      "mouthY (init_game 360 540 Map.empty (Num 0) None) < groundY (init_game 360 540 Map.empty (Num 0) None)"
    by (simp_all add: groundY_def desired_dims_def game_consts)
  show ?thesis using physics_falls [OF h] h by simp
qed

end
