(* ===== verification/Pipes.thy ===== *)
theory Pipes
  imports Geometry Physics
begin

text \<open>
  The obstacles (\<open>part_000\<close>): \<open>spawnPipe\<close> (lines 216--238), and the loop of
  \<open>update\<close> over the active pipes (lines 269--315), which walks the array from the last
  index down to 0, scrolls each pipe, removes it in place with \<open>splice\<close> once it is off
  screen, scores it when the player's centre has passed its centre, and tests the player
  against its two barriers.  The random draws of \<open>Math.random()\<close> are parameters
  (\<open>r1\<close> for the gap, \<open>r2\<close> for its position), each in \<open>[0, 1)\<close>.

  The loop is modelled as the code runs it: \<open>pipe_at i\<close> is one iteration at index
  \<open>i\<close>, reading \<open>pipes[i]\<close> (\<open>None\<close> is the \<open>TypeError\<close> that reading
  \<open>p.x\<close> of \<open>undefined\<close> would raise), and \<open>pipes_loop\<close> runs the iterations
  from \<open>length - 1\<close> down to 0.  The functional reference \<open>tick_pipes\<close> scrolls all
  pipes, keeps the ones on screen, marks and counts the ones that score, and ends the game
  if any collides.  The main theorem of the theory says the two agree.
\<close>

definition spawnPipe :: "real \<Rightarrow> real \<Rightarrow> game \<Rightarrow> game" where
  "spawnPipe r1 r2 g =
     (let gp = PIPE_GAP_MIN + r1 * (PIPE_GAP_MAX - PIPE_GAP_MIN);
          topLimit = TOP_LIMIT;
          bottomLimit = ch g - GROUND_HEIGHT - BOTTOM_MARGIN - gp;
          th = topLimit + r2 * (bottomLimit - topLimit);
          px = cw g + PIPE_WIDTH
      in g\<lparr>pipes := pipes g @
             [\<lparr>pipe_x = px, pipe_width = PIPE_WIDTH, topHeight = th, gap = gp, passed = False\<rparr>]\<rparr>)"

definition scroll_pipe :: "pipe \<Rightarrow> pipe" where
  "scroll_pipe p = p\<lparr>pipe_x := pipe_x p - SCROLL_SPEED\<rparr>"

definition offscreen :: "pipe \<Rightarrow> bool" where
  "offscreen p \<longleftrightarrow> pipe_x p + pipe_width p < REMOVAL_X"

definition crosses :: "game \<Rightarrow> pipe \<Rightarrow> bool" where
  "crosses g p \<longleftrightarrow> pipe_x p + pipe_width p / 2 < mouthX g + MOUTH_SIZE / 2"

definition scores :: "game \<Rightarrow> pipe \<Rightarrow> bool" where
  "scores g p \<longleftrightarrow> \<not> passed p \<and> crosses g p"

definition collides :: "game \<Rightarrow> pipe \<Rightarrow> bool" where
  "collides g p \<longleftrightarrow>
     rectsOverlap (mouthX g) (mouthY g) MOUTH_SIZE MOUTH_SIZE
       (pipe_x p) 0 (pipe_width p) (topHeight p) \<or>
     rectsOverlap (mouthX g) (mouthY g) MOUTH_SIZE MOUTH_SIZE
       (pipe_x p) (topHeight p + gap p) (pipe_width p) (ch g - GROUND_HEIGHT - (topHeight p + gap p))"

text \<open>\<open>score++\<close>, and a new best is stored (lines 282--286).\<close>

definition bump_score :: "game \<Rightarrow> game" where
  "bump_score g =
     (let s = score g + 1 in
      if js_gt (real s) (best g)
      then g\<lparr>score := s, best := Num (real s), storage := persist_best s (storage g)\<rparr>
      else g\<lparr>score := s\<rparr>)"

text \<open>\<open>pipes.splice(i, 1)\<close> for an index in range.\<close>

definition splice1 :: "nat \<Rightarrow> 'a list \<Rightarrow> 'a list" where
  "splice1 i xs = take i xs @ drop (Suc i) xs"

definition pipe_at :: "nat \<Rightarrow> game \<Rightarrow> game option" where
  "pipe_at i g =
     (if i < length (pipes g) then
        (let p = scroll_pipe (pipes g ! i) in
         if offscreen p then Some (g\<lparr>pipes := splice1 i (pipes g)\<rparr>)
         else
           (let g1 = g\<lparr>pipes := (pipes g)[i := p]\<rparr>;
                g2 = (if \<not> passed p \<and> crosses g p
                      then bump_score (g1\<lparr>pipes := (pipes g1)[i := p\<lparr>passed := True\<rparr>]\<rparr>)
                      else g1)
            in Some (if collides g p then g2\<lparr>isGameOver := True\<rparr> else g2)))
      else None)"

fun pipes_loop :: "nat \<Rightarrow> game \<Rightarrow> game option" where
  "pipes_loop 0 g = Some g"
| "pipes_loop (Suc i) g = (case pipe_at i g of None \<Rightarrow> None | Some g' \<Rightarrow> pipes_loop i g')"

text \<open>The reference: what one pass of the loop does to the whole array.\<close>

definition survivors :: "pipe list \<Rightarrow> pipe list" where
  "survivors ps = filter (\<lambda>p. \<not> offscreen p) (map scroll_pipe ps)"

definition mark_passed :: "game \<Rightarrow> pipe \<Rightarrow> pipe" where
  "mark_passed g p = (if scores g p then p\<lparr>passed := True\<rparr> else p)"

definition tick_pipes :: "game \<Rightarrow> game" where
  "tick_pipes g =
     (let kept = survivors (pipes g) in
      (bump_score ^^ length (filter (scores g) kept))
        (g\<lparr>pipes := map (mark_passed g) kept,
           isGameOver := (isGameOver g \<or> list_ex (collides g) kept)\<rparr>))"

subsection \<open>One iteration and the whole loop\<close>

lemma bump_score_frame [game_state_simps]:
  "assets (bump_score g) = assets g" "pipes (bump_score g) = pipes g" "isGameOver (bump_score g) = isGameOver g"
  "mouthX (bump_score g) = mouthX g" "mouthY (bump_score g) = mouthY g"
  "canvas (bump_score g) = canvas g" "score (bump_score g) = Suc (score g)"
  "landingCanvas (bump_score g) = landingCanvas g" "showLanding (bump_score g) = showLanding g"
  "mouthVelY (bump_score g) = mouthVelY g" "lastPipeAt (bump_score g) = lastPipeAt g"
  "isRunning (bump_score g) = isRunning g" "lastTimestamp (bump_score g) = lastTimestamp g"
  "backgroundOffset (bump_score g) = backgroundOffset g" "frames (bump_score g) = frames g"
  by (simp_all add: bump_score_def Let_def)

lemma bump_score_upd:
  "bump_score (g\<lparr>pipes := ps\<rparr>) = (bump_score g)\<lparr>pipes := ps\<rparr>"
  "bump_score (g\<lparr>isGameOver := b\<rparr>) = (bump_score g)\<lparr>isGameOver := b\<rparr>"
  by (simp_all add: bump_score_def Let_def)

lemma funpow_bump_upd:
  "(bump_score ^^ n) (g\<lparr>pipes := ps\<rparr>) = ((bump_score ^^ n) g)\<lparr>pipes := ps\<rparr>"
  "(bump_score ^^ n) (g\<lparr>isGameOver := b\<rparr>) = ((bump_score ^^ n) g)\<lparr>isGameOver := b\<rparr>"
  by (induction n) (simp_all add: bump_score_upd)

lemma funpow_bump_frame:
  "assets ((bump_score ^^ n) g) = assets g" "mouthX ((bump_score ^^ n) g) = mouthX g" "mouthY ((bump_score ^^ n) g) = mouthY g"
  "canvas ((bump_score ^^ n) g) = canvas g" "pipes ((bump_score ^^ n) g) = pipes g"
  "isGameOver ((bump_score ^^ n) g) = isGameOver g"
  "landingCanvas ((bump_score ^^ n) g) = landingCanvas g"
  "showLanding ((bump_score ^^ n) g) = showLanding g"
  "mouthVelY ((bump_score ^^ n) g) = mouthVelY g" "lastPipeAt ((bump_score ^^ n) g) = lastPipeAt g"
  "isRunning ((bump_score ^^ n) g) = isRunning g"
  "lastTimestamp ((bump_score ^^ n) g) = lastTimestamp g"
  "backgroundOffset ((bump_score ^^ n) g) = backgroundOffset g"
  "frames ((bump_score ^^ n) g) = frames g"
  by (induction n) (simp_all add: bump_score_frame)

lemma view_upd [simp]:
  "scores (g\<lparr>pipes := ps\<rparr>) = scores g" "scores (g\<lparr>isGameOver := b\<rparr>) = scores g"
  "collides (g\<lparr>pipes := ps\<rparr>) = collides g" "collides (g\<lparr>isGameOver := b\<rparr>) = collides g"
  "mark_passed (g\<lparr>pipes := ps\<rparr>) = mark_passed g" "mark_passed (g\<lparr>isGameOver := b\<rparr>) = mark_passed g"
  by (simp_all add: fun_eq_iff scores_def crosses_def collides_def mark_passed_def)

lemma view_funpow_bump [simp]:
  "scores ((bump_score ^^ n) g) = scores g" "collides ((bump_score ^^ n) g) = collides g"
  "mark_passed ((bump_score ^^ n) g) = mark_passed g"
  by (simp_all add: fun_eq_iff scores_def crosses_def collides_def mark_passed_def funpow_bump_frame)

lemma survivors_append: "survivors (xs @ ys) = survivors xs @ survivors ys"
  by (simp add: survivors_def)

lemma survivors_single:
  "survivors [p] = (if offscreen (scroll_pipe p) then [] else [scroll_pipe p])"
  by (simp add: survivors_def)

lemma pipe_at_Some:
  assumes "i < length (pipes g)"
  shows "pipe_at i g =
    Some ((bump_score ^^ length (filter (scores g) (survivors [pipes g ! i])))
      (g\<lparr>pipes := take i (pipes g) @ map (mark_passed g) (survivors [pipes g ! i]) @ drop (Suc i) (pipes g),
         isGameOver := (isGameOver g \<or> list_ex (collides g) (survivors [pipes g ! i]))\<rparr>))"
proof -
  let ?q = "scroll_pipe (pipes g ! i)"
  have upd: "\<And>p. (pipes g)[i := p] = take i (pipes g) @ p # drop (Suc i) (pipes g)"
    using assms by (rule upd_conv_take_nth_drop)
  show ?thesis
  proof (cases "offscreen ?q")
    case True
    with assms show ?thesis by (simp add: pipe_at_def survivors_single splice1_def)
  next
    case off: False
    show ?thesis
    proof (cases "scores g ?q")
      case True
      then have "\<not> passed ?q \<and> crosses g ?q" by (simp add: scores_def)
      with True off assms upd show ?thesis
        by (simp add: pipe_at_def survivors_single mark_passed_def Let_def bump_score_upd bump_score_frame list_update_append)
    next
      case False
      then have c: "\<not> passed ?q \<Longrightarrow> \<not> crosses g ?q" by (simp add: scores_def)
      from False off assms upd show ?thesis
        by (simp add: pipe_at_def survivors_single mark_passed_def Let_def c cong: conj_cong)
    qed
  qed
qed

lemma pipes_loop_prefix:
  "i \<le> length (pipes g) \<Longrightarrow>
   pipes_loop i g =
     Some ((bump_score ^^ length (filter (scores g) (survivors (take i (pipes g)))))
       (g\<lparr>pipes := map (mark_passed g) (survivors (take i (pipes g))) @ drop i (pipes g),
          isGameOver := (isGameOver g \<or> list_ex (collides g) (survivors (take i (pipes g))))\<rparr>))"
proof (induction i arbitrary: g)
  case 0
  then show ?case by (simp add: survivors_def)
next
  case (Suc i)
  let ?ps = "pipes g"
  let ?K = "survivors [?ps ! i]"
  let ?g' = "(bump_score ^^ length (filter (scores g) ?K))
      (g\<lparr>pipes := take i ?ps @ map (mark_passed g) ?K @ drop (Suc i) ?ps,
         isGameOver := (isGameOver g \<or> list_ex (collides g) ?K)\<rparr>)"
  have lt: "i < length ?ps" using Suc.prems by simp
  then have step: "pipe_at i g = Some ?g'" by (rule pipe_at_Some)
  have pg': "pipes ?g' = take i ?ps @ map (mark_passed g) ?K @ drop (Suc i) ?ps"
    by (simp add: funpow_bump_frame)
  have tk: "take i (pipes ?g') = take i ?ps" and dr: "drop i (pipes ?g') = map (mark_passed g) ?K @ drop (Suc i) ?ps"
    using lt by (simp_all add: pg')
  have "i \<le> length (pipes ?g')" using lt by (simp add: pg')
  then have IH: "pipes_loop i ?g' =
     Some ((bump_score ^^ length (filter (scores ?g') (survivors (take i (pipes ?g')))))
       (?g'\<lparr>pipes := map (mark_passed ?g') (survivors (take i (pipes ?g'))) @ drop i (pipes ?g'),
          isGameOver := (isGameOver ?g' \<or> list_ex (collides ?g') (survivors (take i (pipes ?g'))))\<rparr>))"
    by (rule Suc.IH)
  have tS: "take (Suc i) ?ps = take i ?ps @ [?ps ! i]"
    using lt by (rule take_Suc_conv_app_nth)
  show ?case
    using IH step lt
    by (simp add: tk dr tS survivors_append funpow_bump_frame funpow_bump_upd funpow_add
        disj_commute disj_left_commute)
qed

subsection \<open>Score, best score and storage\<close>

lemma funpow_bump_score [simp]: "score ((bump_score ^^ n) g) = score g + n"
  by (induction n) (simp_all add: bump_score_frame)

lemma bump_score_best:
  "best (bump_score g) = (if js_gt (real (Suc (score g))) (best g) then Num (real (Suc (score g))) else best g)"
  "storage (bump_score g) =
     (if js_gt (real (Suc (score g))) (best g) then persist_best (Suc (score g)) (storage g) else storage g)"
  by (simp_all add: bump_score_def Let_def)

text \<open>
  Closed form of \<open>n\<close> increments: the last one that beats the best decides both the best
  score and the stored value, and every later increment beats it again.
\<close>

lemma funpow_bump_best:
  "best ((bump_score ^^ n) g) =
     (if 0 < n \<and> js_gt (real (score g + n)) (best g) then Num (real (score g + n)) else best g) \<and>
   storage ((bump_score ^^ n) g) =
     (if 0 < n \<and> js_gt (real (score g + n)) (best g)
      then persist_best (score g + n) (storage g) else storage g)"
proof (induction n)
  case 0
  then show ?case by simp
next
  case (Suc n)
  show ?case
  proof (cases "best g")
    case (Num b)
    with Suc.IH show ?thesis by (auto simp: bump_score_best)
  next
    case NaN
    with Suc.IH show ?thesis by (simp add: bump_score_best)
  qed
qed

lemma tick_pipes_frame [game_state_simps]:
  "assets (tick_pipes g) = assets g" "canvas (tick_pipes g) = canvas g" "landingCanvas (tick_pipes g) = landingCanvas g"
  "showLanding (tick_pipes g) = showLanding g" "mouthY (tick_pipes g) = mouthY g"
  "mouthX (tick_pipes g) = mouthX g" "mouthVelY (tick_pipes g) = mouthVelY g"
  "lastPipeAt (tick_pipes g) = lastPipeAt g" "isRunning (tick_pipes g) = isRunning g"
  "lastTimestamp (tick_pipes g) = lastTimestamp g"
  "backgroundOffset (tick_pipes g) = backgroundOffset g" "frames (tick_pipes g) = frames g"
  by (simp_all add: tick_pipes_def Let_def funpow_bump_frame)

lemma tick_pipes_pipes: "pipes (tick_pipes g) = map (mark_passed g) (survivors (pipes g))"
  by (simp add: tick_pipes_def Let_def funpow_bump_frame)

lemma tick_pipes_score: "score (tick_pipes g) = score g + length (filter (scores g) (survivors (pipes g)))"
  by (simp add: tick_pipes_def Let_def)

lemma tick_pipes_game_over:
  "isGameOver (tick_pipes g) \<longleftrightarrow> isGameOver g \<or> list_ex (collides g) (survivors (pipes g))"
  by (simp add: tick_pipes_def Let_def funpow_bump_frame)

lemma tick_pipes_best:
  "best (tick_pipes g) =
     (let n = length (filter (scores g) (survivors (pipes g))) in
      if 0 < n \<and> js_gt (real (score g + n)) (best g) then Num (real (score g + n)) else best g)"
  "storage (tick_pipes g) =
     (let n = length (filter (scores g) (survivors (pipes g))) in
      if 0 < n \<and> js_gt (real (score g + n)) (best g)
      then persist_best (score g + n) (storage g) else storage g)"
  by (simp_all add: tick_pipes_def Let_def funpow_bump_best)

lemma mark_passed_crosses [simp]: "crosses g (mark_passed g' p) = crosses g p"
  by (simp add: mark_passed_def crosses_def)

lemma mark_passed_passed: "passed (mark_passed g p) \<longleftrightarrow> passed p \<or> crosses g p"
  by (auto simp: mark_passed_def scores_def)

lemma passed_scroll [simp]: "passed (scroll_pipe p) = passed p"
  by (simp add: scroll_pipe_def)

lemma length_filter_split:
  "length (filter P xs) = length (filter (\<lambda>x. P x \<and> Q x) xs) + length (filter (\<lambda>x. P x \<and> \<not> Q x) xs)"
  by (induction xs) auto

text \<open>
  Scoring consumes unpassed pipes one for one: the score gained in a pass plus the
  unpassed pipes left equals the unpassed pipes that stayed on screen.
\<close>

lemma tick_pipes_conserves:
  "score (tick_pipes g) + length (filter (\<lambda>p. \<not> passed p) (pipes (tick_pipes g))) =
   score g + length (filter (\<lambda>p. \<not> passed p) (survivors (pipes g)))"
proof -
  let ?K = "survivors (pipes g)"
  have "length (filter (\<lambda>p. \<not> passed p) (map (mark_passed g) ?K)) =
        length (filter (\<lambda>p. \<not> passed p \<and> \<not> crosses g p) ?K)"
    by (simp add: mark_passed_passed comp_def)
  moreover have "length (filter (\<lambda>p. \<not> passed p) ?K) =
      length (filter (scores g) ?K) + length (filter (\<lambda>p. \<not> passed p \<and> \<not> crosses g p) ?K)"
    using length_filter_split [of "\<lambda>p. \<not> passed p" ?K "crosses g"]
    by (simp add: scores_def [abs_def])
  ultimately show ?thesis by (simp add: tick_pipes_score tick_pipes_pipes)
qed

lemma survivors_unpassed_le:
  "length (filter (\<lambda>p. \<not> passed p) (survivors ps)) \<le> length (filter (\<lambda>p. \<not> passed p) ps)"
proof -
  have "length (filter (\<lambda>p. \<not> passed p) (survivors ps)) =
        length (filter (\<lambda>p. \<not> offscreen p) (filter (\<lambda>p. \<not> passed p) (map scroll_pipe ps)))"
    by (simp add: survivors_def conj_commute)
  also have "\<dots> \<le> length (filter (\<lambda>p. \<not> passed p) (map scroll_pipe ps))"
    by (rule length_filter_le)
  also have "\<dots> = length (filter (\<lambda>p. \<not> passed p) ps)"
    by (simp add: comp_def)
  finally show ?thesis .
qed

lemma tick_pipes_marks: "p \<in> set (pipes (tick_pipes g)) \<Longrightarrow> crosses g p \<Longrightarrow> passed p"
  by (auto simp: tick_pipes_pipes mark_passed_passed)

lemma spawnPipe_frame [game_state_simps]:
  "assets (spawnPipe r1 r2 g) = assets g" "canvas (spawnPipe r1 r2 g) = canvas g" "landingCanvas (spawnPipe r1 r2 g) = landingCanvas g"
  "showLanding (spawnPipe r1 r2 g) = showLanding g" "mouthY (spawnPipe r1 r2 g) = mouthY g"
  "mouthX (spawnPipe r1 r2 g) = mouthX g" "mouthVelY (spawnPipe r1 r2 g) = mouthVelY g"
  "lastPipeAt (spawnPipe r1 r2 g) = lastPipeAt g" "score (spawnPipe r1 r2 g) = score g"
  "best (spawnPipe r1 r2 g) = best g" "isRunning (spawnPipe r1 r2 g) = isRunning g"
  "isGameOver (spawnPipe r1 r2 g) = isGameOver g"
  "lastTimestamp (spawnPipe r1 r2 g) = lastTimestamp g"
  "backgroundOffset (spawnPipe r1 r2 g) = backgroundOffset g"
  "storage (spawnPipe r1 r2 g) = storage g" "frames (spawnPipe r1 r2 g) = frames g"
  by (simp_all add: spawnPipe_def Let_def)

lemma spawnPipe_pipes:
  "pipes (spawnPipe r1 r2 g) = pipes g @
     [\<lparr>pipe_x = cw g + PIPE_WIDTH, pipe_width = PIPE_WIDTH,
       topHeight = TOP_LIMIT + r2 * (ch g - GROUND_HEIGHT - BOTTOM_MARGIN
                     - (PIPE_GAP_MIN + r1 * (PIPE_GAP_MAX - PIPE_GAP_MIN)) - TOP_LIMIT),
       gap = PIPE_GAP_MIN + r1 * (PIPE_GAP_MAX - PIPE_GAP_MIN), passed = False\<rparr>]"
  by (simp add: spawnPipe_def Let_def)

lemma pipe_sel [simp]:
  "pipe_x (scroll_pipe p) = pipe_x p - SCROLL_SPEED" "pipe_width (scroll_pipe p) = pipe_width p"
  "pipe_x (mark_passed g p) = pipe_x p" "pipe_width (mark_passed g p) = pipe_width p"
  by (simp_all add: scroll_pipe_def mark_passed_def)

lemma tick_pipes_single:
  assumes "pipes g = [p]" "REMOVAL_X \<le> pipe_x p - real n * SCROLL_SPEED + pipe_width p"
  shows "\<exists>q. pipes ((tick_pipes ^^ n) g) = [q] \<and> pipe_x q = pipe_x p - real n * SCROLL_SPEED \<and>
    pipe_width q = pipe_width p"
  using assms(2)
proof (induction n)
  case 0
  then show ?case using assms(1) by simp
next
  case (Suc n)
  have "real (Suc n) * SCROLL_SPEED = real n * SCROLL_SPEED + SCROLL_SPEED"
    by (simp add: algebra_simps)
  then have "REMOVAL_X \<le> pipe_x p - real n * SCROLL_SPEED + pipe_width p"
    using Suc.prems game_consts_pos(4) by linarith
  then obtain q where q: "pipes ((tick_pipes ^^ n) g) = [q]"
    "pipe_x q = pipe_x p - real n * SCROLL_SPEED" "pipe_width q = pipe_width p"
    using Suc.IH by blast
  have sx: "pipe_x (scroll_pipe q) = pipe_x p - real (Suc n) * SCROLL_SPEED"
    using q(2) by (simp add: algebra_simps)
  have "\<not> offscreen (scroll_pipe q)"
    using Suc.prems sx q(3) by (simp add: offscreen_def)
  then show ?case
    using q sx by (simp add: tick_pipes_pipes survivors_def)
qed

text \<open>
  C1: the loop of \<open>update\<close> over the pipes, which walks the array backwards and removes
  pipes in place with \<open>splice\<close>, never reads past the end of the array and computes
  exactly the reference pass \<open>tick_pipes\<close>: scroll every pipe, drop those off screen,
  mark and count the ones that score, and end the game if any collides.
\<close>

theorem pipes_loop_refines: "pipes_loop (length (pipes g)) g = Some (tick_pipes g)"
  using pipes_loop_prefix [of "length (pipes g)" g] by (simp add: tick_pipes_def Let_def)

text \<open>
  C22: on a canvas at least 360 pixels high, every pipe \<open>spawnPipe\<close> appends, for random
  draws in \<open>[0, 1)\<close>, has a gap in \<open>[PIPE_GAP_MIN, PIPE_GAP_MAX)\<close> whose top is at least
  \<open>TOP_LIMIT\<close> and whose bottom is at most \<open>BOTTOM_MARGIN\<close> above the ground strip; it
  starts one pipe width right of the canvas, unpassed.
\<close>

theorem spawnPipe_bounds:
  assumes "0 \<le> r1" "r1 < 1" "0 \<le> r2" "r2 < 1" "360 \<le> ch g"
  shows "\<exists>p. pipes (spawnPipe r1 r2 g) = pipes g @ [p] \<and>
    PIPE_GAP_MIN \<le> gap p \<and> gap p < PIPE_GAP_MAX \<and> TOP_LIMIT \<le> topHeight p \<and>
    topHeight p + gap p \<le> ch g - GROUND_HEIGHT - BOTTOM_MARGIN \<and>
    pipe_x p = cw g + PIPE_WIDTH \<and> pipe_width p = PIPE_WIDTH \<and> \<not> passed p"
proof -
  define gp where "gp = PIPE_GAP_MIN + r1 * (PIPE_GAP_MAX - PIPE_GAP_MIN)"
  define d where "d = ch g - GROUND_HEIGHT - BOTTOM_MARGIN - gp - TOP_LIMIT"
  define th where "th = TOP_LIMIT + r2 * d"
  have eq: "pipes (spawnPipe r1 r2 g) = pipes g @
      [\<lparr>pipe_x = cw g + PIPE_WIDTH, pipe_width = PIPE_WIDTH, topHeight = th, gap = gp, passed = False\<rparr>]"
    by (simp add: spawnPipe_pipes gp_def d_def th_def)
  have gp: "PIPE_GAP_MIN \<le> gp" "gp < PIPE_GAP_MAX"
    using assms(1,2) by (simp_all add: gp_def game_consts)
  have "0 \<le> d" using gp(2) assms(5) unfolding d_def game_consts by linarith
  then have "0 \<le> r2 * d" "r2 * d \<le> d"
    using assms(3,4) by (simp_all add: mult_left_le_one_le)
  then have "TOP_LIMIT \<le> th" "th + gp \<le> ch g - GROUND_HEIGHT - BOTTOM_MARGIN"
    unfolding th_def using d_def by linarith+
  with eq gp show ?thesis by simp
qed

theorem spawnPipe_bounds_witness:
  "0 \<le> (0::real) \<and> (0::real) < 1 \<and> 0 \<le> (1/2::real) \<and> (1/2::real) < 1 \<and>
   360 \<le> ch (init_game 360 640 Map.empty (Num 0) None) \<and>
   (\<exists>p. pipes (spawnPipe 0 (1/2) (init_game 360 640 Map.empty (Num 0) None)) = [p] \<and>
      PIPE_GAP_MIN \<le> gap p \<and> gap p < PIPE_GAP_MAX \<and> TOP_LIMIT \<le> topHeight p \<and>
      topHeight p + gap p \<le> ch (init_game 360 640 Map.empty (Num 0) None) - GROUND_HEIGHT - BOTTOM_MARGIN \<and>
      pipe_x p = cw (init_game 360 640 Map.empty (Num 0) None) + PIPE_WIDTH \<and>
      pipe_width p = PIPE_WIDTH \<and> \<not> passed p)"
proof -
  have h: "360 \<le> ch (init_game 360 640 Map.empty (Num 0) None)"
    by (simp add: desired_dims_def)
  show ?thesis using spawnPipe_bounds [OF _ _ _ _ h, of 0 "1/2"] h by simp
qed

text \<open>
  C23: \<open>spawnPipe\<close> does not check its placement envelope: on a canvas less than 330
  pixels high (a short landscape viewport), the draws \<open>r1 = r2 = 1/2\<close> already place
  the top of the gap above \<open>TOP_LIMIT\<close> and its bottom inside the bottom margin.
\<close>

theorem spawnPipe_envelope_violated:
  assumes "ch g < 330"
  shows "\<exists>p. pipes (spawnPipe (1/2) (1/2) g) = pipes g @ [p] \<and> topHeight p < TOP_LIMIT \<and>
    ch g - GROUND_HEIGHT - BOTTOM_MARGIN < topHeight p + gap p"
proof -
  have aux: "\<And>h :: real. h < 330 \<Longrightarrow>
      TOP_LIMIT + 1/2 * (h - GROUND_HEIGHT - BOTTOM_MARGIN - (PIPE_GAP_MIN + 1/2 * (PIPE_GAP_MAX - PIPE_GAP_MIN)) - TOP_LIMIT)
        < TOP_LIMIT \<and>
      h - GROUND_HEIGHT - BOTTOM_MARGIN <
        TOP_LIMIT + 1/2 * (h - GROUND_HEIGHT - BOTTOM_MARGIN - (PIPE_GAP_MIN + 1/2 * (PIPE_GAP_MAX - PIPE_GAP_MIN)) - TOP_LIMIT)
        + (PIPE_GAP_MIN + 1/2 * (PIPE_GAP_MAX - PIPE_GAP_MIN))"
    by (simp add: game_consts field_simps)
  show ?thesis using aux [OF assms] by (simp add: spawnPipe_pipes)
qed

theorem spawnPipe_envelope_violated_witness:
  "ch (init_game 480 300 Map.empty (Num 0) None) < 330 \<and>
   (\<exists>p. pipes (spawnPipe (1/2) (1/2) (init_game 480 300 Map.empty (Num 0) None)) = [p] \<and>
      topHeight p < TOP_LIMIT \<and>
      ch (init_game 480 300 Map.empty (Num 0) None) - GROUND_HEIGHT - BOTTOM_MARGIN < topHeight p + gap p)"
proof -
  have h: "ch (init_game 480 300 Map.empty (Num 0) None) < 330"
    by (simp add: desired_dims_def)
  show ?thesis using spawnPipe_envelope_violated [OF h] h by simp
qed

end
