(* ===== verification/Update.thy ===== *)
theory Update
  imports Pipes
begin

text \<open>
  The per-frame update of the world (\<open>part_000\<close>, lines 249--323).  \<open>update\<close> runs,
  in the code's order, the physics step, the background scroll, the pipe loop and the
  spawn timer; it returns \<open>None\<close> only where the pipe loop would read past the end of
  the array, which \<open>Pipes.pipes_loop_refines\<close> rules out (\<open>update_Some\<close>).  A
  \<open>QuotaExceededError\<close> of \<open>localStorage.setItem\<close> (line 285) is not modelled:
  storage is a map whose update always succeeds.  \<open>world_inv\<close> is the part of the
  game's invariant that \<open>update\<close> preserves (\<open>world_inv_update\<close>).
\<close>

definition background_step :: "game \<Rightarrow> game" where
  "background_step g = g\<lparr>backgroundOffset := js_rem (backgroundOffset g + SCROLL_SPEED) (cw g)\<rparr>"

definition spawn_step :: "ms \<Rightarrow> real \<Rightarrow> real \<Rightarrow> game \<Rightarrow> game" where
  "spawn_step dt r1 r2 g =
     (let g1 = g\<lparr>lastPipeAt := lastPipeAt g + dt\<rparr> in
      if lastPipeAt g1 > PIPE_INTERVAL_MS then (spawnPipe r1 r2 g1)\<lparr>lastPipeAt := 0\<rparr> else g1)"

definition update :: "ms \<Rightarrow> real \<Rightarrow> real \<Rightarrow> game \<Rightarrow> game option" where
  "update dt r1 r2 g =
     (if isGameOver g then Some g
      else
        (let g1 = background_step (physics g) in
         case pipes_loop (length (pipes g1)) g1 of
           None \<Rightarrow> None
         | Some g2 \<Rightarrow> Some (spawn_step dt r1 r2 g2)))"

text \<open>
  The invariant of the world.  \<open>world_inv\<close> holds of every state that \<open>update\<close> may
  see: the canvas is at least 320 pixels wide and the landing canvas has its size, the
  spawn timer is at most \<open>PIPE_INTERVAL_MS\<close>, the scroll offset is non-negative, storage
  reads back as the current best score, and the score does not exceed a numeric best.
\<close>

definition world_inv :: "game \<Rightarrow> bool" where
  "world_inv g \<longleftrightarrow>
     320 \<le> cv_width (canvas g) \<and> landingCanvas g = canvas g \<and>
     lastPipeAt g \<le> PIPE_INTERVAL_MS \<and> 0 \<le> backgroundOffset g \<and>
     load_best (storage g) = Some (best g) \<and> \<not> js_gt (real (score g)) (best g)"

text \<open>
  The order of the obstacles: their \<open>x\<close> positions ascend along the array, and none
  lies right of where \<open>spawnPipe\<close> places a new one on the current canvas.
\<close>

definition pipes_ordered :: "game \<Rightarrow> bool" where
  "pipes_ordered g \<longleftrightarrow>
     sorted (map pipe_x (pipes g)) \<and> list_all (\<lambda>p. pipe_x p \<le> cw g + PIPE_WIDTH) (pipes g)"

text \<open>
  A sample state for the witnesses: a running game on a 360 by 540 canvas with one pipe
  whose centre has just passed the player's centre, and whose gap the player is in.
\<close>

definition demo_running :: game where
  "demo_running = (init_game 360 540 Map.empty (Num 0) None)\<lparr>isRunning := True, frames := 1,
     pipes := [\<lparr>pipe_x = 50, pipe_width = 70, topHeight = 100, gap = 300, passed = False\<rparr>]\<rparr>"

subsection \<open>The update, step by step\<close>

lemma background_step_frame [game_state_simps]:
  "assets (background_step g) = assets g" "canvas (background_step g) = canvas g" "landingCanvas (background_step g) = landingCanvas g"
  "showLanding (background_step g) = showLanding g" "mouthY (background_step g) = mouthY g"
  "mouthX (background_step g) = mouthX g" "mouthVelY (background_step g) = mouthVelY g"
  "pipes (background_step g) = pipes g" "lastPipeAt (background_step g) = lastPipeAt g"
  "score (background_step g) = score g" "best (background_step g) = best g"
  "isRunning (background_step g) = isRunning g" "isGameOver (background_step g) = isGameOver g"
  "lastTimestamp (background_step g) = lastTimestamp g" "storage (background_step g) = storage g"
  "frames (background_step g) = frames g"
  by (simp_all add: background_step_def)

lemma spawn_step_frame [game_state_simps]:
  "assets (spawn_step dt r1 r2 g) = assets g" "canvas (spawn_step dt r1 r2 g) = canvas g"
  "landingCanvas (spawn_step dt r1 r2 g) = landingCanvas g"
  "showLanding (spawn_step dt r1 r2 g) = showLanding g" "mouthY (spawn_step dt r1 r2 g) = mouthY g"
  "mouthX (spawn_step dt r1 r2 g) = mouthX g" "mouthVelY (spawn_step dt r1 r2 g) = mouthVelY g"
  "score (spawn_step dt r1 r2 g) = score g" "best (spawn_step dt r1 r2 g) = best g"
  "isRunning (spawn_step dt r1 r2 g) = isRunning g"
  "isGameOver (spawn_step dt r1 r2 g) = isGameOver g"
  "lastTimestamp (spawn_step dt r1 r2 g) = lastTimestamp g"
  "backgroundOffset (spawn_step dt r1 r2 g) = backgroundOffset g"
  "storage (spawn_step dt r1 r2 g) = storage g" "frames (spawn_step dt r1 r2 g) = frames g"
  by (simp_all add: spawn_step_def Let_def spawnPipe_frame)

lemma spawn_step_timer:
  "lastPipeAt (spawn_step dt r1 r2 g) =
     (if PIPE_INTERVAL_MS < lastPipeAt g + dt then 0 else lastPipeAt g + dt)"
  by (simp add: spawn_step_def Let_def)

lemma spawn_step_pipes:
  "pipes (spawn_step dt r1 r2 g) =
     (if PIPE_INTERVAL_MS < lastPipeAt g + dt
      then pipes (spawnPipe r1 r2 (g\<lparr>lastPipeAt := lastPipeAt g + dt\<rparr>)) else pipes g)"
  by (simp add: spawn_step_def Let_def)

lemma collides_background [simp]: "collides (background_step g) = collides g"
  by (simp add: fun_eq_iff collides_def background_step_def)

lemma scores_physics [simp]:
  "scores (background_step (physics g)) = scores g"
  "mark_passed (background_step (physics g)) = mark_passed g"
  by (simp_all add: fun_eq_iff scores_def crosses_def mark_passed_def
      background_step_frame physics_frame)

text \<open>
  A frame of a running game is, in this order, the physics step, the background scroll,
  one pass over the pipes and the spawn timer; a frame after a game over changes nothing.
\<close>

lemma update_Some:
  "update dt r1 r2 g =
     Some (if isGameOver g then g
           else spawn_step dt r1 r2 (tick_pipes (background_step (physics g))))"
  using pipes_loop_prefix [of "length (pipes (background_step (physics g)))" "background_step (physics g)"]
  by (simp add: update_def Let_def background_step_frame physics_frame tick_pipes_def)

lemmas game_eval = update_Some tick_pipes_def survivors_def scores_def crosses_def collides_def
  rectsOverlap_def scroll_pipe_def offscreen_def bump_score_def spawn_step_def physics_def
  background_step_def groundY_def desired_dims_def game_consts mark_passed_def Let_def
  persist_best_def demo_running_def

text \<open>
  C2: in a frame of a running game the score grows by exactly the number of pipes that
  stay on screen, are not yet passed, and whose centre is now left of the player's centre;
  after a game over it does not change.
\<close>

theorem update_score:
  assumes "update dt r1 r2 g = Some g'"
  shows "score g' = score g + (if isGameOver g then 0 else length (filter (scores g) (survivors (pipes g))))"
  using assms
  by (auto simp: update_Some spawn_step_frame tick_pipes_score background_step_frame physics_frame)

theorem update_score_witness:
  "\<exists>g'. update 16 0 0 demo_running = Some g' \<and> score g' = 1"
proof -
  let ?g' = "spawn_step 16 0 0 (tick_pipes (background_step (physics demo_running)))"
  have u: "update 16 0 0 demo_running = Some ?g'" by (simp add: game_eval)
  have "score ?g' = 1" using update_score [OF u] by (simp add: game_eval)
  with u show ?thesis by blast
qed

text \<open>
  C3: each pipe scores at most once.  In a frame of a running game, the score plus the
  number of unpassed pipes afterwards equals the score plus the unpassed pipes that stayed
  on screen, plus one when the spawn timer adds a new unpassed pipe: every point scored
  turns exactly one unpassed pipe into a passed one.
\<close>

theorem update_scores_once:
  assumes "update dt r1 r2 g = Some g'" "\<not> isGameOver g"
  shows "score g' + length (filter (\<lambda>p. \<not> passed p) (pipes g')) =
    score g + length (filter (\<lambda>p. \<not> passed p) (survivors (pipes g))) +
    (if PIPE_INTERVAL_MS < lastPipeAt g + dt then 1 else 0)"
proof -
  let ?t = "tick_pipes (background_step (physics g))"
  have g': "g' = spawn_step dt r1 r2 ?t" using assms by (simp add: update_Some)
  have c: "score ?t + length (filter (\<lambda>p. \<not> passed p) (pipes ?t)) =
      score g + length (filter (\<lambda>p. \<not> passed p) (survivors (pipes g)))"
    using tick_pipes_conserves [of "background_step (physics g)"]
    by (simp add: background_step_frame physics_frame)
  have l: "lastPipeAt ?t = lastPipeAt g"
    by (simp add: tick_pipes_frame background_step_frame physics_frame)
  show ?thesis
    using c l by (simp add: g' spawn_step_frame spawn_step_pipes spawnPipe_pipes)
qed

theorem update_scores_once_witness:
  "\<exists>g'. update 16 0 0 demo_running = Some g' \<and> \<not> isGameOver demo_running \<and>
     score g' + length (filter (\<lambda>p. \<not> passed p) (pipes g')) = 1"
proof -
  let ?g' = "spawn_step 16 0 0 (tick_pipes (background_step (physics demo_running)))"
  have u: "update 16 0 0 demo_running = Some ?g'" and n: "\<not> isGameOver demo_running"
    by (simp_all add: game_eval)
  have "score ?g' + length (filter (\<lambda>p. \<not> passed p) (pipes ?g')) = 1"
    using update_scores_once [OF u n] by (simp add: game_eval)
  with u n show ?thesis by blast
qed

text \<open>
  C4: the best score after a frame is the new score when the frame raised the score above
  a numeric best, and is unchanged otherwise; the new best is written to storage exactly in
  the first case, as \<open>String(score)\<close> under the best-score key.
\<close>

theorem update_best:
  assumes "update dt r1 r2 g = Some g'" "best g = Num b"
  shows "best g' = (if score g < score g' \<and> b < real (score g') then Num (real (score g')) else Num b) \<and>
    storage g' = (if score g < score g' \<and> b < real (score g')
                  then persist_best (score g') (storage g) else storage g)"
proof (cases "isGameOver g")
  case True
  with assms show ?thesis by (simp add: update_Some)
next
  case False
  let ?h = "background_step (physics g)"
  have g': "g' = spawn_step dt r1 r2 (tick_pipes ?h)" using assms(1) False by (simp add: update_Some)
  have h: "best ?h = Num b" "score ?h = score g" "storage ?h = storage g" "pipes ?h = pipes g"
    using assms(2) by (simp_all add: background_step_frame physics_frame)
  show ?thesis
    using h by (simp add: g' spawn_step_frame tick_pipes_best tick_pipes_score Let_def)
qed

theorem update_best_witness:
  "\<exists>g'. update 16 0 0 demo_running = Some g' \<and> best demo_running = Num 0 \<and>
     best g' = Num 1 \<and> storage g' = persist_best 1 Map.empty"
proof -
  let ?g' = "spawn_step 16 0 0 (tick_pipes (background_step (physics demo_running)))"
  have u: "update 16 0 0 demo_running = Some ?g'" and b: "best demo_running = Num 0"
    by (simp_all add: game_eval)
  have s: "score ?g' = 1" "score demo_running = 0" by (simp_all add: game_eval)
  have "best ?g' = Num 1 \<and> storage ?g' = persist_best 1 Map.empty"
    using update_best [OF u b] s by (simp add: demo_running_def)
  with u b show ?thesis by blast
qed

text \<open>
  C5: a best score that was read from storage as NaN stays NaN for ever: no frame changes
  it and no frame writes storage, whatever the score reaches.
\<close>

theorem update_best_NaN:
  assumes "update dt r1 r2 g = Some g'" "best g = NaN"
  shows "best g' = NaN \<and> storage g' = storage g"
  using assms
  by (auto simp: update_Some spawn_step_frame tick_pipes_best background_step_frame physics_frame Let_def)

theorem update_best_NaN_witness:
  "\<exists>g'. update 16 0 0 (demo_running\<lparr>best := NaN\<rparr>) = Some g' \<and> best (demo_running\<lparr>best := NaN\<rparr>) = NaN \<and>
     score g' = 1 \<and> best g' = NaN \<and> storage g' = Map.empty"
proof -
  let ?g = "demo_running\<lparr>best := NaN\<rparr>"
  let ?g' = "spawn_step 16 0 0 (tick_pipes (background_step (physics ?g)))"
  have u: "update 16 0 0 ?g = Some ?g'" and b: "best ?g = NaN"
    by (simp_all add: game_eval)
  have "score ?g' = 1" by (simp add: game_eval)
  moreover have "best ?g' = NaN \<and> storage ?g' = Map.empty"
    using update_best_NaN [OF u b] by (simp add: demo_running_def)
  ultimately show ?thesis using u b by blast
qed

text \<open>
  After a game over the world is frozen: \<open>update\<close> returns the state unchanged, so the
  game stays over until an input restarts it.
\<close>

theorem update_game_over_frozen:
  assumes "isGameOver g"
  shows "update dt r1 r2 g = Some g"
  using assms by (simp add: update_Some)

theorem update_game_over_frozen_witness:
  "isGameOver (demo_running\<lparr>isGameOver := True\<rparr>) \<and>
   update 50 0 0 (demo_running\<lparr>isGameOver := True\<rparr>) = Some (demo_running\<lparr>isGameOver := True\<rparr>)"
  using update_game_over_frozen [of "demo_running\<lparr>isGameOver := True\<rparr>" 50 0 0] by simp

text \<open>
  C27: the spawn timer of a running game accumulates the frame time and, once it exceeds
  \<open>PIPE_INTERVAL_MS\<close>, restarts at exactly 0 (the overshoot is dropped) while a pipe is
  appended; so after every such frame it is at most \<open>PIPE_INTERVAL_MS\<close>.
\<close>

theorem update_spawn_timer:
  assumes "update dt r1 r2 g = Some g'" "\<not> isGameOver g"
  shows "lastPipeAt g' = (if PIPE_INTERVAL_MS < lastPipeAt g + dt then 0 else lastPipeAt g + dt) \<and>
    lastPipeAt g' \<le> PIPE_INTERVAL_MS \<and>
    length (pipes g') = length (survivors (pipes g)) + (if PIPE_INTERVAL_MS < lastPipeAt g + dt then 1 else 0)"
proof -
  have g': "g' = spawn_step dt r1 r2 (tick_pipes (background_step (physics g)))"
    using assms by (simp add: update_Some)
  show ?thesis
    using less_imp_le [OF game_consts_pos(6)]
    by (simp add: g' spawn_step_timer spawn_step_pipes spawnPipe_pipes tick_pipes_pipes
        tick_pipes_frame background_step_frame physics_frame)
qed

theorem update_spawn_timer_witness:
  "\<exists>g'. update 50 0 0 (demo_running\<lparr>lastPipeAt := 1390\<rparr>) = Some g' \<and>
     \<not> isGameOver (demo_running\<lparr>lastPipeAt := 1390\<rparr>) \<and> lastPipeAt g' = 0 \<and> length (pipes g') = 2"
proof -
  let ?g = "demo_running\<lparr>lastPipeAt := 1390\<rparr>"
  let ?g' = "spawn_step 50 0 0 (tick_pipes (background_step (physics ?g)))"
  have u: "update 50 0 0 ?g = Some ?g'" and n: "\<not> isGameOver ?g" by (simp_all add: game_eval)
  have "lastPipeAt ?g' = 0 \<and> length (pipes ?g') = 2"
    using update_spawn_timer [OF u n] by (simp add: game_eval)
  with u n show ?thesis by blast
qed

text \<open>
  The parallax offset of a running game stays in \<open>[0, canvas.width)\<close>: from a
  non-negative offset, a frame adds \<open>SCROLL_SPEED\<close> and wraps it with \<open>%\<close>.
\<close>

theorem update_background_bounds:
  assumes "update dt r1 r2 g = Some g'" "\<not> isGameOver g" "0 \<le> backgroundOffset g"
    "0 < cv_width (canvas g)"
  shows "0 \<le> backgroundOffset g' \<and> backgroundOffset g' < cw g'"
proof -
  have "0 \<le> backgroundOffset g + SCROLL_SPEED" using assms(3) game_consts_pos(4) by linarith
  then have "0 \<le> js_rem (backgroundOffset g + SCROLL_SPEED) (cw g) \<and>
      js_rem (backgroundOffset g + SCROLL_SPEED) (cw g) < cw g"
    using assms(4) by (simp add: js_rem_bounds)
  moreover have "g' = spawn_step dt r1 r2 (tick_pipes (background_step (physics g)))"
    using assms(1,2) by (simp add: update_Some)
  ultimately show ?thesis
    by (simp add: spawn_step_frame tick_pipes_frame background_step_def physics_frame)
qed

theorem update_background_bounds_witness:
  "\<exists>g'. update 16 0 0 (demo_running\<lparr>backgroundOffset := 358\<rparr>) = Some g' \<and>
     \<not> isGameOver (demo_running\<lparr>backgroundOffset := 358\<rparr>) \<and>
     0 \<le> backgroundOffset (demo_running\<lparr>backgroundOffset := 358\<rparr>) \<and>
     0 < cv_width (canvas (demo_running\<lparr>backgroundOffset := 358\<rparr>)) \<and>
     backgroundOffset g' = 0.6"
proof -
  let ?g = "demo_running\<lparr>backgroundOffset := 358\<rparr>"
  let ?g' = "spawn_step 16 0 0 (tick_pipes (background_step (physics ?g)))"
  have u: "update 16 0 0 ?g = Some ?g'" and h: "\<not> isGameOver ?g" "0 \<le> backgroundOffset ?g"
    "0 < cv_width (canvas ?g)" by (simp_all add: game_eval)
  have "0 \<le> backgroundOffset ?g' \<and> backgroundOffset ?g' < cw ?g'"
    by (rule update_background_bounds [OF u h])
  moreover have "backgroundOffset ?g' = 0.6"
    by (simp add: game_eval js_rem_def js_trunc_def tick_pipes_frame)
  ultimately show ?thesis using u h by blast
qed

subsection \<open>The invariant of the world\<close>

lemma world_inv_update:
  assumes "update dt r1 r2 g = Some g'" "world_inv g"
  shows "world_inv g'"
proof (cases "isGameOver g")
  case True
  with assms show ?thesis by (simp add: update_Some)
next
  case False
  let ?h = "background_step (physics g)"
  let ?n = "length (filter (scores g) (survivors (pipes g)))"
  have g': "g' = spawn_step dt r1 r2 (tick_pipes ?h)" using assms(1) False by (simp add: update_Some)
  have inv: "320 \<le> cv_width (canvas g)" "landingCanvas g = canvas g" "0 \<le> backgroundOffset g"
    "load_best (storage g) = Some (best g)" "\<not> js_gt (real (score g)) (best g)"
    using assms(2) by (simp_all add: world_inv_def)
  have h: "best ?h = best g" "score ?h = score g" "storage ?h = storage g" "pipes ?h = pipes g"
    "canvas ?h = canvas g" "landingCanvas ?h = landingCanvas g"
    by (simp_all add: background_step_frame physics_frame)
  have fr: "canvas g' = canvas g" "landingCanvas g' = landingCanvas g"
    by (simp_all add: g' spawn_step_frame tick_pipes_frame h)
  have timer: "lastPipeAt g' \<le> PIPE_INTERVAL_MS"
    using less_imp_le [OF game_consts_pos(6)] by (simp add: g' spawn_step_timer)
  have "0 \<le> backgroundOffset g + SCROLL_SPEED" using inv(3) game_consts_pos(4) by linarith
  moreover have "0 < cw g" using inv(1) by simp
  ultimately have bg: "0 \<le> backgroundOffset g'"
    by (simp add: g' spawn_step_frame tick_pipes_frame background_step_def physics_frame js_rem_bounds)
  have sb: "load_best (storage g') = Some (best g') \<and> \<not> js_gt (real (score g')) (best g')"
  proof (cases "best g")
    case (Num b)
    with inv(4,5) show ?thesis
      by (auto simp: g' spawn_step_frame tick_pipes_best tick_pipes_score h Let_def
          load_best_persist_best)
  next
    case NaN
    with inv(4) show ?thesis
      by (simp add: g' spawn_step_frame tick_pipes_best h Let_def)
  qed
  show ?thesis using inv fr timer bg sb by (simp add: world_inv_def)
qed

subsection \<open>The order of the obstacles\<close>

lemma survivors_ordered:
  assumes "sorted (map pipe_x ps)" "list_all (\<lambda>p. pipe_x p \<le> c) ps"
  shows "sorted (map pipe_x (map (mark_passed g) (survivors ps)))"
    "list_all (\<lambda>p. pipe_x p \<le> c - SCROLL_SPEED) (map (mark_passed g) (survivors ps))"
proof -
  have m: "map pipe_x (map (mark_passed g) qs) = map pipe_x qs" for qs
    by (induction qs) (simp_all add: mark_passed_def)
  have "sorted (map pipe_x (map scroll_pipe ps))"
    using assms(1) by (simp add: scroll_pipe_def sorted_iff_nth_mono)
  then have "sorted (map pipe_x (survivors ps))" by (simp add: survivors_def sorted_filter)
  then show "sorted (map pipe_x (map (mark_passed g) (survivors ps)))" by (simp only: m)
  show "list_all (\<lambda>p. pipe_x p \<le> c - SCROLL_SPEED) (map (mark_passed g) (survivors ps))"
    using assms(2) by (auto simp: survivors_def list_all_iff scroll_pipe_def mark_passed_def)
qed

text \<open>
  C20: \<open>update\<close> keeps the obstacles in order: scrolling moves all of them by the same
  amount, removal keeps the order of the rest, and a new pipe is appended at the right
  edge, right of all of them.
\<close>

theorem update_pipes_ordered:
  assumes "update dt r1 r2 g = Some g'" "pipes_ordered g"
  shows "pipes_ordered g'"
proof (cases "isGameOver g")
  case True
  with assms show ?thesis by (simp add: update_Some)
next
  case False
  let ?h = "background_step (physics g)"
  let ?ps = "map (mark_passed ?h) (survivors (pipes g))"
  have g': "g' = spawn_step dt r1 r2 (tick_pipes ?h)" using assms(1) False by (simp add: update_Some)
  have ph: "pipes ?h = pipes g" "canvas ?h = canvas g"
    by (simp_all add: background_step_frame physics_frame)
  have o: "sorted (map pipe_x (pipes g))" "list_all (\<lambda>p. pipe_x p \<le> cw g + PIPE_WIDTH) (pipes g)"
    using assms(2) by (simp_all add: pipes_ordered_def)
  have s: "sorted (map pipe_x ?ps)"
    and b: "list_all (\<lambda>p. pipe_x p \<le> cw g + PIPE_WIDTH - SCROLL_SPEED) ?ps"
    using survivors_ordered [OF o] by blast+
  have b': "list_all (\<lambda>p. pipe_x p \<le> cw g + PIPE_WIDTH) ?ps"
    unfolding list_all_iff
  proof
    fix p assume p: "p \<in> set ?ps"
    have "pipe_x p \<le> cw g + PIPE_WIDTH - SCROLL_SPEED" using b p unfolding list_all_iff by blast
    then show "pipe_x p \<le> cw g + PIPE_WIDTH" using game_consts_pos(4) by linarith
  qed
  have t: "pipes (tick_pipes ?h) = ?ps" "canvas (tick_pipes ?h) = canvas g"
    by (simp_all add: tick_pipes_pipes tick_pipes_frame ph)
  show ?thesis
    using s b' by (auto simp: g' pipes_ordered_def spawn_step_pipes spawn_step_frame t spawnPipe_def
        Let_def sorted_append list_all_iff)
qed

theorem update_pipes_ordered_witness:
  "\<exists>g'. update 16 0 0 (demo_running\<lparr>lastPipeAt := 1390\<rparr>) = Some g' \<and>
     pipes_ordered (demo_running\<lparr>lastPipeAt := 1390\<rparr>) \<and> pipes_ordered g' \<and> length (pipes g') = 2"
proof -
  let ?g = "demo_running\<lparr>lastPipeAt := 1390\<rparr>"
  let ?g' = "spawn_step 16 0 0 (tick_pipes (background_step (physics ?g)))"
  have u: "update 16 0 0 ?g = Some ?g'" by (simp add: update_Some demo_running_def)
  have o: "pipes_ordered ?g" by (simp add: pipes_ordered_def demo_running_def game_consts desired_dims_def)
  have "length (pipes ?g') = 2"
    by (simp add: spawn_step_pipes tick_pipes_pipes tick_pipes_frame background_step_frame physics_frame spawnPipe_def
        survivors_def offscreen_def scroll_pipe_def demo_running_def game_consts)
  with u o update_pipes_ordered [OF u o] show ?thesis by blast
qed

end
