(* ===== verification/Render.thy ===== *)
theory Render
  imports Pipes
begin

text \<open>
  The geometry of \<open>draw\<close> (\<open>part_000\<close>, lines 325--428) that depends on the game
  state: the rectangles painted for a pipe (lines 356--369: the two barriers and the two
  4-pixel wider "lips" at the gap), the sprite's centre and tilt (lines 372--375), and the
  disc the sprite covers at every tilt.  The lemmas relate what is painted to what
  \<open>update\<close> tests for collisions.
\<close>

type_synonym rect = "real \<times> real \<times> real \<times> real"

definition tilt :: "real \<Rightarrow> real" where
  "tilt velY = max (-0.5) (min 1.0 (velY / 9))"

definition pipe_draw_rects :: "game \<Rightarrow> pipe \<Rightarrow> rect list" where
  "pipe_draw_rects g p =
     [(pipe_x p, 0, pipe_width p, topHeight p),
      (pipe_x p, topHeight p + gap p, pipe_width p, ch g - GROUND_HEIGHT - (topHeight p + gap p)),
      (pipe_x p - 4, topHeight p - 10, pipe_width p + 8, 10),
      (pipe_x p - 4, topHeight p + gap p, pipe_width p + 8, 10)]"

text \<open>
  The sprite (lines 371--387) is painted around its centre \<open>sprite_centre\<close>, rotated by
  \<open>tilt\<close>: the image in the square \<open>[-MOUTH_SIZE/2, MOUTH_SIZE/2]\<^sup>2\<close>, or else the
  fallback disc of radius \<open>MOUTH_SIZE/2\<close>.  At every tilt both cover the disc of that
  radius around the centre (\<open>disc_in_rotated_square\<close>; for the image, where it is
  opaque).  \<open>disc_meets_rect\<close> tests whether that open disc meets a rectangle, through
  the rectangle's point closest to the centre.
\<close>

definition sprite_centre :: "game \<Rightarrow> real \<times> real" where
  "sprite_centre g = (mouthX g + MOUTH_SIZE / 2, mouthY g + MOUTH_SIZE / 2)"

definition clamp :: "real \<Rightarrow> real \<Rightarrow> real \<Rightarrow> real" where
  "clamp lo hi v = max lo (min hi v)"

definition disc_meets_rect :: "real \<times> real \<Rightarrow> real \<Rightarrow> rect \<Rightarrow> bool" where
  "disc_meets_rect c r b =
     (case c of (cx, cy) \<Rightarrow> case b of (x, y, w, h) \<Rightarrow>
        (clamp x (x + w) cx - cx)\<^sup>2 + (clamp y (y + h) cy - cy)\<^sup>2 < r\<^sup>2)"

text \<open>
  The sprite's tilt is \<open>velY / 9\<close> clamped to \<open>[-0.5, 1]\<close> radians.
\<close>

theorem tilt_bounds:
  "-0.5 \<le> tilt v \<and> tilt v \<le> 1 \<and> (-4.5 \<le> v \<and> v \<le> 9 \<longrightarrow> tilt v = v / 9)"
  by (simp add: tilt_def)

theorem tilt_bounds_witness: "-4.5 \<le> (4.5::real) \<and> (4.5::real) \<le> 9 \<and> tilt 4.5 = 0.5"
  using tilt_bounds [of "4.5"] by simp

lemma disc_in_rotated_square:
  fixes dx dy r t :: real
  assumes "dx\<^sup>2 + dy\<^sup>2 < r\<^sup>2" "0 < r"
  shows "\<bar>dx * cos t + dy * sin t\<bar> < r \<and> \<bar>dy * cos t - dx * sin t\<bar> < r"
proof -
  have sc: "(sin t)\<^sup>2 + (cos t)\<^sup>2 = 1" by simp
  have "(dx * cos t + dy * sin t)\<^sup>2 + (dy * cos t - dx * sin t)\<^sup>2 =
        dx\<^sup>2 * ((sin t)\<^sup>2 + (cos t)\<^sup>2) + dy\<^sup>2 * ((sin t)\<^sup>2 + (cos t)\<^sup>2)"
    by (simp add: power2_eq_square algebra_simps
        del: sin_cos_squared_add sin_cos_squared_add2 sin_cos_squared_add3)
  also have "\<dots> = dx\<^sup>2 + dy\<^sup>2" by (simp only: sc mult_1_right)
  finally have sum: "(dx * cos t + dy * sin t)\<^sup>2 + (dy * cos t - dx * sin t)\<^sup>2 < r\<^sup>2"
    using assms(1) by linarith
  have nn: "0 \<le> (dx * cos t + dy * sin t)\<^sup>2" "0 \<le> (dy * cos t - dx * sin t)\<^sup>2" by simp_all
  have "(dx * cos t + dy * sin t)\<^sup>2 < r\<^sup>2" "(dy * cos t - dx * sin t)\<^sup>2 < r\<^sup>2"
    using sum nn by linarith+
  then have a: "\<bar>dx * cos t + dy * sin t\<bar>\<^sup>2 < r\<^sup>2" "\<bar>dy * cos t - dx * sin t\<bar>\<^sup>2 < r\<^sup>2"
    by (simp_all only: power2_abs)
  have "0 \<le> r" using assms(2) by simp
  from power2_less_imp_less [OF a(1) this] power2_less_imp_less [OF a(2) this] show ?thesis ..
qed

text \<open>
  C34: the painted lips are not solid: a sprite just right of a pipe and level with the
  top lip covers part of the painted lip (4 pixels wider than the barrier) at every tilt,
  with its image or its fallback disc, without colliding.
\<close>

theorem lip_not_solid:
  assumes "0 < pipe_width p"
    "mouthX g = pipe_x p + pipe_width p + 2" "mouthY g = topHeight p - MOUTH_SIZE + 5"
  shows "\<not> collides g p \<and> disc_meets_rect (sprite_centre g) (MOUTH_SIZE / 2) (pipe_draw_rects g p ! 2)"
  using assms by (simp add: collides_def rectsOverlap_def pipe_draw_rects_def sprite_centre_def
      disc_meets_rect_def clamp_def game_consts power2_eq_square)

theorem lip_not_solid_witness:
  "0 < pipe_width \<lparr>pipe_x = 400, pipe_width = 70, topHeight = 100, gap = 150, passed = False\<rparr> \<and>
   mouthX ((init_game 800 1200 Map.empty (Num 0) None)\<lparr>mouthX := 472, mouthY := 73\<rparr>) =
     pipe_x \<lparr>pipe_x = 400, pipe_width = 70, topHeight = 100, gap = 150, passed = False\<rparr> +
     pipe_width \<lparr>pipe_x = 400, pipe_width = 70, topHeight = 100, gap = 150, passed = False\<rparr> + 2 \<and>
   mouthY ((init_game 800 1200 Map.empty (Num 0) None)\<lparr>mouthX := 472, mouthY := 73\<rparr>) =
     topHeight \<lparr>pipe_x = 400, pipe_width = 70, topHeight = 100, gap = 150, passed = False\<rparr> - MOUTH_SIZE + 5 \<and>
   \<not> collides ((init_game 800 1200 Map.empty (Num 0) None)\<lparr>mouthX := 472, mouthY := 73\<rparr>)
     \<lparr>pipe_x = 400, pipe_width = 70, topHeight = 100, gap = 150, passed = False\<rparr>"
  using lip_not_solid [where g = "(init_game 800 1200 Map.empty (Num 0) None)\<lparr>mouthX := 472, mouthY := 73\<rparr>"
      and p = "\<lparr>pipe_x = 400, pipe_width = 70, topHeight = 100, gap = 150, passed = False\<rparr>"]
  by (simp add: game_consts)

end
