(* ===== verification/Draw.thy ===== *)
theory Draw
  imports Render
begin

text \<open>
  \<open>draw\<close> and \<open>drawLanding\<close> (\<open>part_000\<close>, lines 325--428 and 455--530) as the list
  of paint commands they issue.  Fill colours and texts are kept; fonts, text alignment,
  shadows and the \<open>save/restore\<close> of styles are not.  The transforms the code sets up
  around a group of commands are nodes of the list: \<open>FlipY\<close> is
  \<open>save(); scale(1, -1); ...; restore()\<close>, \<open>Sprite x y a\<close> is \<open>save(); translate(x, y);
  rotate(a); ...; restore()\<close>, \<open>Alpha\<close> a \<open>globalAlpha\<close> set and reset around it.  A
  text is a list of parts, a number part being the JavaScript number the code
  concatenates.

  \<open>drawImage\<close> of an image whose request is broken throws an \<open>InvalidStateError\<close>
  (HTML, "check the usability of the image argument"); an image still loading draws
  nothing.  A painting is the list of commands issued and the exception, if one was
  thrown: \<open>pseq\<close> runs a sequence of steps and stops at the first exception.
\<close>

datatype image = BgImage | GroundImage | MouthImage | TongueImage

datatype fill = Color string | BgPatternFill

datatype text_part = Str string | NumStr jsnum

datatype paint =
    ClearRect rect
  | FillRect fill rect
  | DrawImage image rect
  | FillCircle string real real real
  | FillText "text_part list" real real
  | Alpha real "paint list"
  | FlipY "paint list"
  | Sprite real real real "paint list"

datatype dom_exception = InvalidStateError

type_synonym painting = "paint list \<times> dom_exception option"

definition ok :: "paint list \<Rightarrow> painting" where
  "ok ps = (ps, None)"

fun pseq :: "painting list \<Rightarrow> painting" where
  "pseq [] = ([], None)"
| "pseq ((ps, Some e) # rest) = (ps, Some e)"
| "pseq ((ps, None) # rest) = (case pseq rest of (qs, e) \<Rightarrow> (ps @ qs, e))"

definition group :: "(paint list \<Rightarrow> paint) \<Rightarrow> painting \<Rightarrow> painting" where
  "group f p = ([f (fst p)], snd p)"

fun drawImage :: "img_state \<Rightarrow> image \<Rightarrow> rect \<Rightarrow> painting" where
  "drawImage Broken i r = ([], Some InvalidStateError)"
| "drawImage Loaded i r = ([DrawImage i r], None)"
| "drawImage Pending i r = ([], None)"

text \<open>The stripes of the fallback sky, \<open>for (let x = 0; x < width; x += 120)\<close>.\<close>

definition stripe :: "nat \<Rightarrow> paint" where
  "stripe x = FillRect (Color ''#8be0ec'') (real x, 120, 60, 10)"

function sky_stripes :: "nat \<Rightarrow> nat \<Rightarrow> paint list" where
  "sky_stripes w x = (if x < w then stripe x # sky_stripes w (x + 120) else [])"
  by pat_completeness auto
termination by (relation "measure (\<lambda>(w, x). w - x)") auto

declare sky_stripes.simps [simp del]

definition fallback_sky :: "canvas_dims \<Rightarrow> paint list" where
  "fallback_sky c =
     FillRect (Color ''#70c5ce'') (0, 0, real (cv_width c), real (cv_height c)) #
     sky_stripes (cv_width c) 0"

text \<open>The teeth strip at the bottom and, flipped, at the top (lines 342--353, 481--492).\<close>

definition teeth :: "assets \<Rightarrow> canvas_dims \<Rightarrow> painting list" where
  "teeth a c =
     (if complete (groundImg a)
      then [drawImage (groundImg a) GroundImage
              (0, real (cv_height c) - GROUND_HEIGHT, real (cv_width c), GROUND_HEIGHT),
            group FlipY (drawImage (groundImg a) GroundImage
              (0, - GROUND_HEIGHT, real (cv_width c), GROUND_HEIGHT))]
      else [])"

definition pipe_paints :: "game \<Rightarrow> pipe \<Rightarrow> paint list" where
  "pipe_paints g p =
     map2 (\<lambda>c r. FillRect (Color c) r) [''#fff200'', ''#fff200'', ''#e0c700'', ''#e0c700'']
       (pipe_draw_rects g p)"

text \<open>The tongue of the fallback sprite (lines 389--403): a failed \<open>drawImage\<close> is caught.\<close>

definition tongue_paints :: "assets \<Rightarrow> paint list" where
  "tongue_paints a =
     (let r = (MOUTH_SIZE / 2 - 4, - 4, 12, 8); red = FillRect (Color ''#ff6b6b'') r
      in case tongueImg a of
           Some s \<Rightarrow>
             (if complete s then (case drawImage s TongueImage r of (ps, None) \<Rightarrow> ps | (ps, Some e) \<Rightarrow> ps @ [red])
              else [red])
         | None \<Rightarrow> [red])"

definition mouth_paints :: "assets \<Rightarrow> painting" where
  "mouth_paints a =
     (if complete (mouthImg a)
      then drawImage (mouthImg a) MouthImage (- MOUTH_SIZE / 2, - MOUTH_SIZE / 2, MOUTH_SIZE, MOUTH_SIZE)
      else ok ([FillCircle ''#ffd166'' 0 0 (MOUTH_SIZE / 2),
                FillCircle ''#000'' (MOUTH_SIZE / 6) (- MOUTH_SIZE / 6) 3] @ tongue_paints a))"

definition ui_paints :: "game \<Rightarrow> paint list" where
  "ui_paints g =
     [FillText [Str ''SCORE: '', NumStr (Num (real (score g)))] 18 (ch g / 2 - 20),
      FillText [Str ''BEST: '', NumStr (best g)] 18 (ch g / 2 + 20)] @
     (if isRunning g then []
      else [FillText [Str ''CLICK OR PRESS SPACE TO START''] (cw g / 2) (ch g * 0.42)]) @
     (if isGameOver g
      then [FillText [Str ''GAME OVER''] (cw g / 2) (ch g * 0.45),
            FillText [Str ''CLICK OR PRESS SPACE TO RESTART''] (cw g / 2) (ch g * 0.52)]
      else [])"

definition draw :: "game \<Rightarrow> painting" where
  "draw g =
     pseq ([ok (if bgPattern (assets g)
                then [Alpha 0.6 [FillRect BgPatternFill (0, 0, cw g, ch g)]]
                else fallback_sky (canvas g))] @
           teeth (assets g) (canvas g) @
           [ok (concat (map (pipe_paints g) (pipes g))),
            group (Sprite (mouthX g + MOUTH_SIZE / 2) (mouthY g + MOUTH_SIZE / 2) (tilt (mouthVelY g)))
              (mouth_paints (assets g)),
            ok (ui_paints g)])"

text \<open>\<open>drawLanding\<close>: the background falls back from the pattern to the image to the sky.\<close>

definition start_button :: "canvas_dims \<Rightarrow> rect" where
  "start_button c = ((real (cv_width c) - 200) / 2, real (cv_height c) * 0.6, 200, 60)"

definition landing_texts :: "canvas_dims \<Rightarrow> paint list" where
  "landing_texts c =
     (let w = real (cv_width c); h = real (cv_height c); (bx, by, bw, bh) = start_button c
      in [FillText [Str ''MOUTH TRAP''] (w / 2) (h * 0.4),
          FillText [Str ''CLICK ANYWHERE TO START PLAYING!''] (w / 2) (h * 0.5),
          FillRect (Color ''#fff200'') (start_button c),
          FillText [Str ''START GAME''] (w / 2) (by + bh / 2 + 8)])"

definition drawLanding :: "game \<Rightarrow> painting" where
  "drawLanding g =
     (let a = assets g; c = landingCanvas g;
          full = (0, 0, real (cv_width c), real (cv_height c))
      in pseq ([ok [ClearRect full],
                (if bgPattern a then ok [Alpha 0.6 [FillRect BgPatternFill full]]
                 else if bgImg a \<and> complete (bg_req a) then group (Alpha 0.6) (drawImage (bg_req a) BgImage full)
                 else ok (fallback_sky c))] @
               teeth a c @ [ok (landing_texts c)]))"

text \<open>An image whose \<open>drawImage\<close> in \<open>draw\<close> throws.\<close>

definition broken_image :: "assets \<Rightarrow> bool" where
  "broken_image a \<longleftrightarrow> groundImg a = Broken \<or> mouthImg a = Broken"

text \<open>The texts painted at the top level of a list of commands.\<close>

fun texts :: "paint list \<Rightarrow> text_part list list" where
  "texts [] = []"
| "texts (FillText t x y # ps) = t # texts ps"
| "texts (p # ps) = texts ps"

lemma pseq_ok [simp]: "pseq (ok ps # rest) = (case pseq rest of (qs, e) \<Rightarrow> (ps @ qs, e))"
  by (simp add: ok_def)

lemma pseq_append:
  "pseq (xs @ ys) = (case pseq xs of (ps, None) \<Rightarrow> (case pseq ys of (qs, e) \<Rightarrow> (ps @ qs, e))
                                  | (ps, Some e) \<Rightarrow> (ps, Some e))"
  by (induction xs rule: pseq.induct) (auto split: prod.splits option.splits)

lemma group_sel [simp]: "fst (group f p) = [f (fst p)]" "snd (group f p) = snd p"
  by (simp_all add: group_def)

lemma pseq_group [simp]:
  "pseq (group f p # rest) =
     (case snd p of None \<Rightarrow> (case pseq rest of (qs, e) \<Rightarrow> (f (fst p) # qs, e))
      | Some e \<Rightarrow> ([f (fst p)], Some e))"
  by (cases p; cases "snd p") (simp_all add: group_def)

lemma drawImage_cases:
  "drawImage s i r = (if s = Broken then ([], Some InvalidStateError)
                      else if s = Loaded then ([DrawImage i r], None) else ([], None))"
  by (cases s) simp_all

lemma pseq_drawImage [simp]:
  "pseq (drawImage s i r # rest) =
     (if s = Broken then ([], Some InvalidStateError)
      else (case pseq rest of (qs, e) \<Rightarrow> ((if s = Loaded then [DrawImage i r] else []) @ qs, e)))"
  by (cases s) simp_all

lemma texts_append [simp]: "texts (xs @ ys) = texts xs @ texts ys"
  by (induction xs rule: texts.induct) simp_all

lemma sky_stripes_step: "x < w \<Longrightarrow> sky_stripes w x = stripe x # sky_stripes w (x + 120)"
  by (subst sky_stripes.simps) simp

lemma map_upt_shift:
  "map (\<lambda>k. f (x + 120 * k)) [0..<Suc m] = f x # map (\<lambda>k. f (x + 120 + 120 * k)) [0..<m]"
  by (induction m) (auto simp: add.assoc)

lemma stripes_count: "x < w \<Longrightarrow> (w - x + 119) div 120 = Suc ((w - (x + 120) + 119) div 120)"
proof (cases "x + 120 \<le> w")
  case True
  then obtain d where w: "w = x + 120 + d" using le_Suc_ex by blast
  have "d + 239 = (d + 119) + 120" by simp
  then have "(d + 239) div 120 = Suc ((d + 119) div 120)" by (simp only: div_add_self2)
  then show ?thesis by (simp add: w)
next
  case False
  moreover assume "x < w"
  ultimately obtain d where w: "w = x + Suc d" "d < 119" using less_imp_Suc_add by fastforce
  then show ?thesis by simp
qed

lemma sky_stripes_closed:
  "sky_stripes w x = map (\<lambda>k. stripe (x + 120 * k)) [0..<(w - x + 119) div 120]"
proof (induction w x rule: sky_stripes.induct)
  case (1 w x)
  show ?case
  proof (cases "x < w")
    case True
    show ?thesis
      by (simp only: sky_stripes_step [OF True] stripes_count [OF True] map_upt_shift 1 [OF True])
  next
    case False
    then show ?thesis by (simp add: sky_stripes.simps [of w x])
  qed
qed

lemma texts_map_stripe [simp]: "texts (map (\<lambda>k. stripe (f k)) ks) = []"
  by (induction ks) (simp_all add: stripe_def)

lemma texts_sky [simp]: "texts (sky_stripes w x) = []"
  by (simp add: sky_stripes_closed)

lemma ok_sel [simp]: "fst (ok ps) = ps" "snd (ok ps) = None"
  by (simp_all add: ok_def)

lemma texts_concat [simp]: "texts (concat xss) = concat (map texts xss)"
  by (induction xss) simp_all

lemma texts_pipe_paints [simp]: "texts (pipe_paints g p) = []"
  by (simp add: pipe_paints_def pipe_draw_rects_def)

lemma texts_fallback_sky [simp]: "texts (fallback_sky c) = []"
  by (simp add: fallback_sky_def)

lemma draw_cases:
  "draw g =
     (let bg = (if bgPattern (assets g) then [Alpha 0.6 [FillRect BgPatternFill (0, 0, cw g, ch g)]]
                else fallback_sky (canvas g));
          gr = groundImg (assets g); m = mouthImg (assets g);
          tp = (if gr = Loaded then
                  [DrawImage GroundImage (0, ch g - GROUND_HEIGHT, cw g, GROUND_HEIGHT),
                   FlipY [DrawImage GroundImage (0, - GROUND_HEIGHT, cw g, GROUND_HEIGHT)]] else []);
          sp = Sprite (mouthX g + MOUTH_SIZE / 2) (mouthY g + MOUTH_SIZE / 2) (tilt (mouthVelY g))
      in if gr = Broken then (bg, Some InvalidStateError)
         else if m = Broken then (bg @ tp @ concat (map (pipe_paints g) (pipes g)) @ [sp []], Some InvalidStateError)
         else (bg @ tp @ concat (map (pipe_paints g) (pipes g)) @ [sp (fst (mouth_paints (assets g)))] @ ui_paints g, None))"
  by (cases "groundImg (assets g)"; cases "mouthImg (assets g)")
     (simp_all add: draw_def teeth_def mouth_paints_def Let_def)

lemma draw_snd:
  "snd (draw g) = (if broken_image (assets g) then Some InvalidStateError else None)"
  by (simp add: draw_cases Let_def broken_image_def)

lemma broken_image_step: "broken_image a \<Longrightarrow> broken_image (asset_step e a)"
  using complete_step [of a e] by (auto simp: broken_image_def)

text \<open>
  C11: \<open>draw\<close> throws exactly when the teeth image or the sprite image failed to load:
  \<open>drawImage\<close> is called on every complete image, and a broken one throws.  The
  tongue image's failure is caught.
\<close>

theorem draw_exception:
  "snd (draw g) =
     (if groundImg (assets g) = Broken \<or> mouthImg (assets g) = Broken then Some InvalidStateError else None)"
  by (simp add: draw_cases Let_def)

text \<open>
  C18: the game screen shows "GAME OVER" exactly when the game is over, and the score,
  unless \<open>draw\<close> threw before reaching the texts, in which case no text is painted.
\<close>

theorem draw_texts:
  "([Str ''GAME OVER''] \<in> set (texts (fst (draw g))) \<longleftrightarrow> isGameOver g \<and> snd (draw g) = None) \<and>
   ([Str ''SCORE: '', NumStr (Num (real (score g)))] \<in> set (texts (fst (draw g))) \<longleftrightarrow> snd (draw g) = None)"
  by (auto simp: draw_cases Let_def ui_paints_def)


lemma drawLanding_cases:
  assumes "asset_wf (assets g)"
  shows "drawLanding g =
     (let a = assets g; c = landingCanvas g;
          full = (0, 0, real (cv_width c), real (cv_height c));
          bg = (if bgPattern a then Alpha 0.6 [FillRect BgPatternFill full]
                else if bgImg a then Alpha 0.6 [DrawImage BgImage full]
                else FillRect (Color ''#70c5ce'') full);
          rest = (if bgPattern a \<or> bgImg a then [] else sky_stripes (cv_width c) 0);
          tp = (if groundImg a = Loaded then
                  [DrawImage GroundImage (0, real (cv_height c) - GROUND_HEIGHT, real (cv_width c), GROUND_HEIGHT),
                   FlipY [DrawImage GroundImage (0, - GROUND_HEIGHT, real (cv_width c), GROUND_HEIGHT)]] else [])
      in if groundImg a = Broken then ([ClearRect full, bg] @ rest, Some InvalidStateError)
         else ([ClearRect full, bg] @ rest @ tp @ landing_texts c, None))"
  using assms
  by (cases "groundImg (assets g)")
     (auto simp: drawLanding_def teeth_def Let_def asset_wf_def fallback_sky_def)

text \<open>
  C17: the landing page's background falls back from the pattern to the loaded image to
  the painted sky; when the teeth image is broken \<open>drawLanding\<close> throws after the
  background, and the title and the START GAME button are never painted.
\<close>

theorem drawLanding_layers:
  assumes "asset_wf (assets g)"
  shows "fst (drawLanding g) ! 1 =
      (if bgPattern (assets g)
       then Alpha 0.6 [FillRect BgPatternFill (0, 0, real (cv_width (landingCanvas g)), real (cv_height (landingCanvas g)))]
       else if bgImg (assets g)
       then Alpha 0.6 [DrawImage BgImage (0, 0, real (cv_width (landingCanvas g)), real (cv_height (landingCanvas g)))]
       else FillRect (Color ''#70c5ce'') (0, 0, real (cv_width (landingCanvas g)), real (cv_height (landingCanvas g)))) \<and>
    (snd (drawLanding g) = None \<longleftrightarrow> groundImg (assets g) \<noteq> Broken) \<and>
    ([Str ''START GAME''] \<in> set (texts (fst (drawLanding g))) \<longleftrightarrow> groundImg (assets g) \<noteq> Broken)"
  by (simp add: drawLanding_cases [OF assms] Let_def landing_texts_def start_button_def)

theorem drawLanding_layers_witness:
  "asset_wf (assets ((init_game 360 540 Map.empty (Num 0) None)\<lparr>assets := asset_run [BgLoad False, GroundError] (init_assets None)\<rparr>)) \<and>
   fst (drawLanding ((init_game 360 540 Map.empty (Num 0) None)\<lparr>assets := asset_run [BgLoad False, GroundError] (init_assets None)\<rparr>)) ! 1 =
     Alpha 0.6 [DrawImage BgImage (0, 0, 360, 540)] \<and>
   snd (drawLanding ((init_game 360 540 Map.empty (Num 0) None)\<lparr>assets := asset_run [BgLoad False, GroundError] (init_assets None)\<rparr>)) \<noteq> None"
  using drawLanding_layers [of "(init_game 360 540 Map.empty (Num 0) None)\<lparr>assets := asset_run [BgLoad False, GroundError] (init_assets None)\<rparr>"]
  by (simp add: asset_wf_def init_assets_def bg_onload_def desired_dims_def init_game_def resizeCanvas_def
      assign_dims_def default_canvas_def Let_def)

text \<open>
  The stripe loop of the fallback sky ends after \<open>ceil(width / 120)\<close> iterations,
  painting a stripe every 120 pixels from \<open>x = 0\<close>.
\<close>

theorem sky_stripes_ends: "sky_stripes w 0 = map (\<lambda>k. stripe (120 * k)) [0..<(w + 119) div 120]"
  by (simp add: sky_stripes_closed)

lemma pipe_paints_offset [simp]: "pipe_paints (g\<lparr>backgroundOffset := x\<rparr>) = pipe_paints g"
  by (simp add: fun_eq_iff pipe_paints_def pipe_draw_rects_def)

text \<open>
  C19: neither screen reads \<open>backgroundOffset\<close>: the scroll offset that \<open>update\<close>
  maintains is never drawn.
\<close>

theorem draw_ignores_offset:
  "draw (g\<lparr>backgroundOffset := x\<rparr>) = draw g \<and> drawLanding (g\<lparr>backgroundOffset := x\<rparr>) = drawLanding g"
  by (simp add: draw_def drawLanding_def ui_paints_def)

end
