(* ===== verification/Loop.thy ===== *)
theory Loop
  imports Update Draw
begin

text \<open>
  The animation-frame driver, the input handlers and the game as a state machine
  (\<open>part_000\<close>, lines 58--70, 195--211, 430--453 and 532--545).  \<open>gameLoop\<close> clamps
  the frame time, calls \<open>update\<close> and \<open>draw\<close>, and requests the next frame while
  \<open>isRunning\<close>; an exception thrown by \<open>draw\<close> ends the callback before the request,
  the variables keeping what \<open>update\<close> wrote.  \<open>flap\<close> starts the loop on the first
  input, restarts after a game over, and otherwise sets the upward velocity.

  \<open>game_step\<close> has one rule per event the page handles: a key press on the document,
  a mouse press or touch on the game canvas (visible once the landing page is gone), a click
  or touch on the landing canvas (visible while it is shown), a window resize, a
  \<open>load\<close> or \<open>error\<close> event of an image, and an animation frame, which runs one
  requested \<open>gameLoop\<close> with a timestamp and two random draws in \<open>[0, 1)\<close>.  The
  redraws of the resize listener, of \<open>startGame\<close> and of the image \<open>load\<close> handlers
  are their last statements and write no variable, so an exception they throw changes no
  state.  \<open>reachable\<close> closes the initial states under \<open>game_step\<close>.
\<close>

definition frame_dt :: "real \<Rightarrow> game \<Rightarrow> ms" where
  "frame_dt timestamp g = min MAX_FRAME_MS (timestamp - lastTimestamp g)"

definition gameLoop :: "real \<Rightarrow> real \<Rightarrow> real \<Rightarrow> game \<Rightarrow> game option" where
  "gameLoop timestamp r1 r2 g =
     (let dt = frame_dt timestamp g;
          g1 = g\<lparr>lastTimestamp := timestamp\<rparr>
      in case update dt r1 r2 g1 of
           None \<Rightarrow> None
         | Some g2 \<Rightarrow>
             (case snd (draw g2) of
                Some e \<Rightarrow> Some g2
              | None \<Rightarrow> Some (if isRunning g2 then g2\<lparr>frames := Suc (frames g2)\<rparr> else g2)))"

definition flap :: "real \<Rightarrow> game \<Rightarrow> game" where
  "flap now g =
     (let g1 = (if \<not> isRunning g
                then g\<lparr>isRunning := True, lastTimestamp := now, frames := Suc (frames g)\<rparr>
                else g)
      in if isGameOver g1 then resetGame g1 else g1\<lparr>mouthVelY := FLAP_STRENGTH\<rparr>)"

definition onKeyDown :: "string \<Rightarrow> string \<Rightarrow> real \<Rightarrow> game \<Rightarrow> game" where
  "onKeyDown code key now g = (if code = ''Space'' \<or> key = '' '' then flap now g else g)"

definition onPointer :: "real \<Rightarrow> game \<Rightarrow> game" where
  "onPointer now g = flap now g"

definition startGame :: "game \<Rightarrow> game" where
  "startGame g = g\<lparr>showLanding := False\<rparr>"

definition onResize :: "nat \<Rightarrow> nat \<Rightarrow> game \<Rightarrow> game" where
  "onResize innerWidth innerHeight g =
     (let cs = resizeCanvas innerWidth innerHeight (canvas g, landingCanvas g)
      in g\<lparr>canvas := fst cs, landingCanvas := snd cs\<rparr>)"

text \<open>The browser runs one requested animation frame: the request is used up.\<close>

definition run_frame :: "real \<Rightarrow> real \<Rightarrow> real \<Rightarrow> game \<Rightarrow> game option" where
  "run_frame timestamp r1 r2 g = gameLoop timestamp r1 r2 (g\<lparr>frames := frames g - 1\<rparr>)"

inductive game_step :: "game \<Rightarrow> game \<Rightarrow> bool" where
  key: "game_step g (onKeyDown code key now g)"
| pointer: "\<not> showLanding g \<Longrightarrow> game_step g (onPointer now g)"
| landing: "showLanding g \<Longrightarrow> game_step g (startGame g)"
| resize: "game_step g (onResize innerWidth innerHeight g)"
| asset: "game_step g (g\<lparr>assets := asset_step e (assets g)\<rparr>)"
| frame: "0 < frames g \<Longrightarrow> 0 \<le> r1 \<Longrightarrow> r1 < 1 \<Longrightarrow> 0 \<le> r2 \<Longrightarrow> r2 < 1 \<Longrightarrow>
    run_frame timestamp r1 r2 g = Some g' \<Longrightarrow> game_step g g'"

inductive reachable :: "game \<Rightarrow> bool" where
  init: "load_best st = Some b \<Longrightarrow> reachable (init_game innerWidth innerHeight st b tg)"
| step: "reachable g \<Longrightarrow> game_step g g' \<Longrightarrow> reachable g'"

text \<open>
  The invariant of the game: the world invariant, and one animation frame requested while
  the game runs and none before -- or none at all once a broken image has made
  \<open>draw\<close> throw; before the first input the world is the initial one.
\<close>

definition game_inv :: "game \<Rightarrow> bool" where
  "game_inv g \<longleftrightarrow>
     world_inv g \<and>
     (frames g = (if isRunning g then 1 else 0) \<or>
      isRunning g \<and> frames g = 0 \<and> broken_image (assets g)) \<and>
     (if isRunning g then True else \<not> isGameOver g \<and> pipes g = [] \<and> score g = 0)"

text \<open>
  The three phases of the specification's state machine, read off the two flags of the
  code, and the transitions it allows: the first input leaves \<open>Idle\<close> for good, a
  running game may end, and an ended game only restarts.
\<close>

datatype phase = Idle | Playing | Over

definition phase :: "game \<Rightarrow> phase" where
  "phase g = (if \<not> isRunning g then Idle else if isGameOver g then Over else Playing)"

fun phase_edge :: "phase \<Rightarrow> phase \<Rightarrow> bool" where
  "phase_edge Idle q = (q = Idle \<or> q = Playing)"
| "phase_edge Playing q = (q = Playing \<or> q = Over)"
| "phase_edge Over q = (q = Over \<or> q = Playing)"

inductive_cases game_step_frameE: "game_step g g'"

subsection \<open>Input\<close>

text \<open>
  A flap during play is a hard override: whatever the velocity before, it becomes
  \<open>FLAP_STRENGTH\<close>, the position is untouched, and the loop is running afterwards.
\<close>

theorem flap_impulse:
  assumes "\<not> isGameOver g"
  shows "mouthVelY (flap now g) = FLAP_STRENGTH \<and> mouthY (flap now g) = mouthY g \<and>
    isRunning (flap now g) \<and> score (flap now g) = score g \<and> pipes (flap now g) = pipes g"
  using assms by (simp add: flap_def Let_def)

theorem flap_impulse_witness:
  "\<not> isGameOver (demo_running\<lparr>mouthVelY := -7\<rparr>) \<and>
   mouthVelY (flap 0 (demo_running\<lparr>mouthVelY := -7\<rparr>)) = FLAP_STRENGTH"
  using flap_impulse [of "demo_running\<lparr>mouthVelY := -7\<rparr>" 0] by (simp add: demo_running_def)

text \<open>
  C28: the input after a game over restarts instead of flapping: the score, timers,
  pipes and scroll are reset, the player is back at the centre with zero velocity (no
  impulse is applied), the game is no longer over, and the best score, the storage and the
  scheduled frame are kept.
\<close>

theorem flap_restart:
  assumes "isGameOver g" "isRunning g"
  shows "score (flap now g) = 0 \<and> \<not> isGameOver (flap now g) \<and> pipes (flap now g) = [] \<and>
    mouthY (flap now g) = ch g / 2 \<and> mouthX (flap now g) = cw g * 0.28 \<and>
    mouthVelY (flap now g) = 0 \<and> lastPipeAt (flap now g) = 0 \<and>
    backgroundOffset (flap now g) = 0 \<and> best (flap now g) = best g \<and>
    storage (flap now g) = storage g \<and> frames (flap now g) = frames g \<and> isRunning (flap now g)"
  using assms by (simp add: flap_def resetGame_def)

theorem flap_restart_witness:
  "isGameOver (demo_running\<lparr>isGameOver := True, score := 7, best := Num 9\<rparr>) \<and>
   isRunning (demo_running\<lparr>isGameOver := True, score := 7, best := Num 9\<rparr>) \<and>
   score (flap 0 (demo_running\<lparr>isGameOver := True, score := 7, best := Num 9\<rparr>)) = 0 \<and>
   best (flap 0 (demo_running\<lparr>isGameOver := True, score := 7, best := Num 9\<rparr>)) = Num 9"
  using flap_restart [of "demo_running\<lparr>isGameOver := True, score := 7, best := Num 9\<rparr>" 0]
  by (simp add: demo_running_def)

subsection \<open>Invariants of the reachable states\<close>

lemma world_inv_upd [simp]:
  "world_inv (g\<lparr>lastTimestamp := t\<rparr>) = world_inv g"
  "world_inv (g\<lparr>frames := n\<rparr>) = world_inv g"
  "world_inv (g\<lparr>isRunning := b\<rparr>) = world_inv g"
  "world_inv (g\<lparr>mouthVelY := v\<rparr>) = world_inv g"
  "world_inv (g\<lparr>showLanding := b\<rparr>) = world_inv g"
  by (simp_all add: world_inv_def)

lemma world_inv_assets [simp]: "world_inv (g\<lparr>assets := x\<rparr>) = world_inv g"
  by (simp add: world_inv_def)

lemma gameLoop_Some:
  "gameLoop timestamp r1 r2 g =
     Some (let g2 = (if isGameOver g then g\<lparr>lastTimestamp := timestamp\<rparr>
                     else spawn_step (frame_dt timestamp g) r1 r2
                            (tick_pipes (background_step (physics (g\<lparr>lastTimestamp := timestamp\<rparr>)))))
           in if broken_image (assets g) then g2
              else if isRunning g2 then g2\<lparr>frames := Suc (frames g2)\<rparr> else g2)"
  by (simp add: gameLoop_def update_Some Let_def draw_snd game_state_simps)

lemma run_frame_inv:
  assumes "run_frame timestamp r1 r2 g = Some g'" "game_inv g" "0 < frames g"
  shows "game_inv g'"
proof -
  let ?g0 = "g\<lparr>frames := frames g - 1\<rparr>\<lparr>lastTimestamp := timestamp\<rparr>"
  have run: "isRunning g" "frames g = 1" "world_inv g"
    using assms(2,3) by (auto simp: game_inv_def split: if_splits)
  obtain g2 where u: "update (frame_dt timestamp (g\<lparr>frames := frames g - 1\<rparr>)) r1 r2 ?g0 = Some g2"
    by (simp add: update_Some)
  have a2: "assets g2 = assets g"
    using u by (auto simp: update_Some game_state_simps split: if_splits)
  have g': "g' = (if broken_image (assets g) then g2
                  else if isRunning g2 then g2\<lparr>frames := Suc (frames g2)\<rparr> else g2)"
    using assms(1) u a2
    by (cases "broken_image (assets g)") (auto simp: run_frame_def gameLoop_def Let_def draw_snd)
  have w2: "world_inv g2" using world_inv_update [OF u] run(3) by simp
  have f2: "isRunning g2" "frames g2 = 0"
    using u run(1,2) by (auto simp: update_Some game_state_simps split: if_splits)
  show ?thesis using w2 f2 a2 by (simp add: g' game_inv_def)
qed

lemma js_gt_zero: "load_best st = Some b \<Longrightarrow> \<not> js_gt 0 b"
  by (cases b) (auto dest: load_best_nonneg)

lemma flap_inv: "game_inv g \<Longrightarrow> game_inv (flap now g)"
  using js_gt_zero [of "storage g" "best g"] less_imp_le [OF game_consts_pos(6)]
  by (auto simp: game_inv_def world_inv_def flap_def resetGame_def Let_def)

lemma onResize_inv: "game_inv g \<Longrightarrow> game_inv (onResize iw ih g)"
  using desired_dims_bounds [of iw ih]
  by (auto simp: game_inv_def world_inv_def onResize_def resizeCanvas_def Let_def)

lemma init_inv: "load_best st = Some b \<Longrightarrow> game_inv (init_game iw ih st b tg)"
  using desired_dims_bounds [of iw ih] js_gt_zero [of st b] less_imp_le [OF game_consts_pos(6)]
  by (simp add: game_inv_def world_inv_def)

lemma game_step_inv: "game_step g g' \<Longrightarrow> game_inv g \<Longrightarrow> game_inv g'"
proof (induction rule: game_step.induct)
  case (asset g e)
  then show ?case using broken_image_step [of "assets g" e] by (auto simp: game_inv_def)
next
  case (key g code key now)
  then show ?case by (simp add: onKeyDown_def flap_inv)
next
  case (pointer g now)
  then show ?case by (simp add: onPointer_def flap_inv)
next
  case (landing g)
  then show ?case by (simp add: startGame_def game_inv_def)
next
  case (resize g innerWidth innerHeight)
  then show ?case by (rule onResize_inv)
next
  case (frame g r1 r2 timestamp g')
  then show ?case using run_frame_inv by blast
qed

lemma reachable_game_inv: "reachable g \<Longrightarrow> game_inv g"
proof (induction rule: reachable.induct)
  case (init st b innerWidth innerHeight)
  then show ?case by (rule init_inv)
next
  case (step g g')
  then show ?case using game_step_inv by blast
qed

lemma run_frame_running:
  "run_frame timestamp r1 r2 g = Some g' \<Longrightarrow> isRunning g' = isRunning g"
  by (cases "broken_image (assets g)"; cases "isGameOver g"; cases "isRunning g")
     (auto simp: run_frame_def gameLoop_Some Let_def game_state_simps)

lemma flap_running [simp]: "isRunning (flap now g)"
  by (simp add: flap_def Let_def resetGame_frame)

lemma phase_edge_refl [simp]: "phase_edge q q"
  by (cases q) simp_all

lemma phase_unchanged [simp]:
  "phase (startGame g) = phase g" "phase (onResize iw ih g) = phase g"
  by (simp_all add: startGame_def onResize_def phase_def Let_def)

lemma reachable_init_demo: "reachable (init_game 360 540 Map.empty (Num 0) None)"
  by (rule reachable.init) (simp add: load_best_def)

lemma reachable_space_demo:
  "reachable (onKeyDown ''Space'' '' '' 0 (init_game 360 540 Map.empty (Num 0) None))"
  by (rule reachable.step [OF reachable_init_demo game_step.key])

text \<open>
  C9: exactly one animation loop: in every reachable state one \<open>gameLoop\<close> callback is
  requested while the game runs and none before the first input, so inputs never start a
  second loop and a running loop never stops requesting frames.
\<close>

theorem reachable_one_loop:
  assumes "reachable g"
  shows "frames g = (if isRunning g then 1 else 0) \<or>
         isRunning g \<and> frames g = 0 \<and> broken_image (assets g)"
  using reachable_game_inv [OF assms] by (simp add: game_inv_def)

theorem reachable_one_loop_witness:
  "reachable (onKeyDown ''Space'' '' '' 0 (init_game 360 540 Map.empty (Num 0) None)) \<and>
   frames (onKeyDown ''Space'' '' '' 0 (init_game 360 540 Map.empty (Num 0) None)) = 1"
  using reachable_one_loop [OF reachable_space_demo] reachable_space_demo
  by (simp add: onKeyDown_def flap_def broken_image_def init_assets_def)

text \<open>
  C29: storage and memory agree on the best score: in every reachable state, reading the
  best-score key back with \<open>Number(getItem(key) || 0)\<close> gives the current \<open>best\<close>.
\<close>

theorem reachable_best_persisted:
  assumes "reachable g"
  shows "load_best (storage g) = Some (best g)"
  using reachable_game_inv [OF assms] by (simp add: game_inv_def world_inv_def)

theorem reachable_best_persisted_witness:
  "reachable (init_game 360 540 Map.empty (Num 0) None) \<and>
   load_best (storage (init_game 360 540 Map.empty (Num 0) None)) = Some (Num 0)"
  using reachable_best_persisted [OF reachable_init_demo] reachable_init_demo by simp

text \<open>
  The best score bounds the score: in every reachable state with a numeric best
  score \<open>b\<close>, \<open>score \<le> b\<close>.
\<close>

theorem reachable_score_le_best:
  assumes "reachable g" "best g = Num b"
  shows "real (score g) \<le> b"
  using reachable_game_inv [OF assms(1)] assms(2) by (simp add: game_inv_def world_inv_def)

theorem reachable_score_le_best_witness:
  "reachable (init_game 360 540 Map.empty (Num 0) None) \<and>
   best (init_game 360 540 Map.empty (Num 0) None) = Num 0 \<and>
   real (score (init_game 360 540 Map.empty (Num 0) None)) \<le> 0"
  using reachable_score_le_best [OF reachable_init_demo, of 0] reachable_init_demo by simp

text \<open>
  C30: the game runs the specification's state machine: every event moves a reachable
  state from \<open>Idle\<close> only to \<open>Idle\<close> or \<open>Playing\<close>, from \<open>Playing\<close> only to
  \<open>Playing\<close> or \<open>Over\<close>, and from \<open>Over\<close> only to \<open>Over\<close> or \<open>Playing\<close>: there is
  no way back to \<open>Idle\<close>, and a game ends only while it is being played.
\<close>

theorem reachable_phase_edge:
  assumes "reachable g" "game_step g g'"
  shows "phase_edge (phase g) (phase g')"
  using assms(2)
proof cases
  case (key code key now)
  have "game_inv g" using assms(1) by (rule reachable_game_inv)
  then show ?thesis using key
    by (auto simp: onKeyDown_def flap_def Let_def phase_def resetGame_def game_inv_def)
next
  case (pointer now)
  have "game_inv g" using assms(1) by (rule reachable_game_inv)
  then show ?thesis using pointer
    by (auto simp: onPointer_def flap_def Let_def phase_def resetGame_def game_inv_def)
next
  case landing
  then show ?thesis by simp
next
  case (resize innerWidth innerHeight)
  then show ?thesis by simp
next
  case (asset e)
  then show ?thesis by (simp add: phase_def)
next
  case (frame r1 r2 timestamp)
  have "isRunning g" using reachable_game_inv [OF assms(1)] frame(1)
    by (auto simp: game_inv_def split: if_splits)
  with frame(6) show ?thesis
    by (auto simp: run_frame_def gameLoop_Some Let_def phase_def spawn_step_frame
        tick_pipes_frame background_step_frame physics_frame)
qed

theorem reachable_phase_edge_witness:
  "reachable (init_game 360 540 Map.empty (Num 0) None) \<and>
   game_step (init_game 360 540 Map.empty (Num 0) None) (onKeyDown ''Space'' '' '' 0 (init_game 360 540 Map.empty (Num 0) None)) \<and>
   phase (init_game 360 540 Map.empty (Num 0) None) = Idle \<and>
   phase (onKeyDown ''Space'' '' '' 0 (init_game 360 540 Map.empty (Num 0) None)) = Playing"
proof -
  let ?g = "init_game 360 540 Map.empty (Num 0) None"
  have s: "game_step ?g (onKeyDown ''Space'' '' '' 0 ?g)" by (rule game_step.key)
  have "phase_edge (phase ?g) (phase (onKeyDown ''Space'' '' '' 0 ?g))"
    by (rule reachable_phase_edge [OF reachable_init_demo s])
  then show ?thesis using reachable_init_demo s by (simp add: phase_def onKeyDown_def flap_def)
qed

text \<open>
  The loop is never stopped: no event clears \<open>isRunning\<close>, so once the first input
  has started the game the animation loop runs for as long as the page does.
\<close>

theorem game_step_keeps_running:
  assumes "game_step g g'" "isRunning g"
  shows "isRunning g'"
  using assms(1)
proof cases
  case (frame r1 r2 timestamp)
  with assms(2) show ?thesis by (simp add: run_frame_running)
qed (use assms(2) in \<open>auto simp: onKeyDown_def onPointer_def startGame_def onResize_def Let_def\<close>)

theorem game_step_keeps_running_witness:
  "game_step (onKeyDown ''Space'' '' '' 0 (init_game 360 540 Map.empty (Num 0) None))
     (onResize 800 600 (onKeyDown ''Space'' '' '' 0 (init_game 360 540 Map.empty (Num 0) None))) \<and>
   isRunning (onKeyDown ''Space'' '' '' 0 (init_game 360 540 Map.empty (Num 0) None)) \<and>
   isRunning (onResize 800 600 (onKeyDown ''Space'' '' '' 0 (init_game 360 540 Map.empty (Num 0) None)))"
proof -
  let ?g = "onKeyDown ''Space'' '' '' 0 (init_game 360 540 Map.empty (Num 0) None)"
  have s: "game_step ?g (onResize 800 600 ?g)" by (rule game_step.resize)
  have r: "isRunning ?g" by (simp add: onKeyDown_def)
  show ?thesis using game_step_keeps_running [OF s r] s r by simp
qed

text \<open>
  C31: the key handler is attached to the whole document, so pressing Space while the
  landing page is still shown starts the game loop behind it: the landing page stays up
  while the world is already running and the player falling.
\<close>

theorem landing_space_starts_game:
  assumes "reachable g" "showLanding g" "\<not> isRunning g"
  shows "game_step g (onKeyDown ''Space'' k now g) \<and> isRunning (onKeyDown ''Space'' k now g) \<and>
    showLanding (onKeyDown ''Space'' k now g) \<and> frames (onKeyDown ''Space'' k now g) = 1 \<and>
    reachable (onKeyDown ''Space'' k now g)"
proof -
  have "game_inv g" using assms(1) by (rule reachable_game_inv)
  then have "\<not> isGameOver g" "frames g = 0" using assms(3) by (simp_all add: game_inv_def)
  moreover have st: "game_step g (onKeyDown ''Space'' k now g)" by (rule game_step.key)
  ultimately show ?thesis using assms reachable.step [OF assms(1) st]
    by (simp add: onKeyDown_def flap_def Let_def)
qed

theorem landing_space_starts_game_witness:
  "reachable (init_game 360 540 Map.empty (Num 0) None) \<and> showLanding (init_game 360 540 Map.empty (Num 0) None) \<and>
   \<not> isRunning (init_game 360 540 Map.empty (Num 0) None) \<and>
   isRunning (onKeyDown ''Space'' '' '' 0 (init_game 360 540 Map.empty (Num 0) None)) \<and>
   showLanding (onKeyDown ''Space'' '' '' 0 (init_game 360 540 Map.empty (Num 0) None))"
  using landing_space_starts_game [OF reachable_init_demo, of "'' ''" 0] reachable_init_demo by simp

text \<open>
  C10: one animation frame requests the next exactly when the game runs and \<open>draw\<close>
  does not throw; with a broken teeth or sprite image the frame's \<open>draw\<close> throws before
  \<open>requestAnimationFrame\<close>, and no frame follows.
\<close>

theorem run_frame_requests:
  "\<exists>g'. run_frame timestamp r1 r2 g = Some g' \<and> isRunning g' = isRunning g \<and>
        frames g' = (frames g - 1) + (if isRunning g \<and> \<not> broken_image (assets g) then 1 else 0)"
  by (cases "broken_image (assets g)"; cases "isGameOver g"; cases "isRunning g")
     (auto simp: run_frame_def gameLoop_Some Let_def game_state_simps)

lemma dead_demo:
  defines "g1 \<equiv> onKeyDown ''Space'' '' '' 0
      ((init_game 360 540 Map.empty (Num 0) None)\<lparr>assets := asset_step GroundError (init_assets None)\<rparr>)"
  shows "reachable (the (run_frame 16 0 0 g1))" "isRunning (the (run_frame 16 0 0 g1))"
    "frames (the (run_frame 16 0 0 g1)) = 0"
proof -
  let ?g0 = "init_game 360 540 Map.empty (Num 0) None"
  have a: "game_step ?g0 (?g0\<lparr>assets := asset_step GroundError (assets ?g0)\<rparr>)"
    by (rule game_step.asset)
  have r1: "reachable g1" unfolding g1_def
    using reachable.step [OF reachable.step [OF reachable_init_demo a] game_step.key] by simp
  have f: "frames g1 = 1" "isRunning g1" "\<not> isGameOver g1" "broken_image (assets g1)"
    by (simp_all add: g1_def onKeyDown_def flap_def broken_image_def init_assets_def)
  then have rf: "run_frame 16 0 0 g1 = Some (the (run_frame 16 0 0 g1))"
    by (simp add: run_frame_def gameLoop_Some)
  have "game_step g1 (the (run_frame 16 0 0 g1))"
    by (rule game_step.frame [OF _ _ _ _ _ rf]) (simp_all add: f)
  with r1 show "reachable (the (run_frame 16 0 0 g1))" by (rule reachable.step)
  show "isRunning (the (run_frame 16 0 0 g1))" "frames (the (run_frame 16 0 0 g1)) = 0"
    using f by (simp_all add: run_frame_def gameLoop_Some Let_def game_state_simps)
qed

text \<open>
  C12: a stopped loop is never restarted: in a reachable state that runs with no frame
  requested, every event leaves it running with no frame requested, since \<open>flap\<close> only
  requests a frame when the game is not running.  Such states are reachable: load error of
  the teeth image, Space, one frame.
\<close>

theorem reachable_loop_dead:
  assumes "reachable g" "isRunning g" "frames g = 0" "game_step g g'"
  shows "isRunning g' \<and> frames g' = 0"
  using assms(4)
proof cases
  case (frame r1 r2 timestamp)
  with assms(3) show ?thesis by simp
qed (use assms(2,3) in \<open>auto simp: onKeyDown_def onPointer_def flap_def Let_def resetGame_def
      startGame_def onResize_def\<close>)

theorem reachable_loop_dead_witness:
  "reachable (the (run_frame 16 0 0 (onKeyDown ''Space'' '' '' 0
      ((init_game 360 540 Map.empty (Num 0) None)\<lparr>assets := asset_step GroundError (init_assets None)\<rparr>)))) \<and>
   isRunning (the (run_frame 16 0 0 (onKeyDown ''Space'' '' '' 0
      ((init_game 360 540 Map.empty (Num 0) None)\<lparr>assets := asset_step GroundError (init_assets None)\<rparr>)))) \<and>
   frames (the (run_frame 16 0 0 (onKeyDown ''Space'' '' '' 0
      ((init_game 360 540 Map.empty (Num 0) None)\<lparr>assets := asset_step GroundError (init_assets None)\<rparr>)))) = 0 \<and>
   frames (onKeyDown ''Space'' '' '' 1 (the (run_frame 16 0 0 (onKeyDown ''Space'' '' '' 0
      ((init_game 360 540 Map.empty (Num 0) None)\<lparr>assets := asset_step GroundError (init_assets None)\<rparr>))))) = 0"
  using dead_demo reachable_loop_dead [OF dead_demo game_step.key] by blast

text \<open>
  C21: a window resize breaks the order of the obstacles: after shrinking the canvas from
  800 to 360 pixels, the next frame spawns a pipe at \<open>x = 430\<close>, left of an older pipe
  still at \<open>x = 797.4\<close>; the specification describes the obstacles as ordered left to
  right.
\<close>

theorem resize_breaks_pipe_order:
  "pipes_ordered ((init_game 800 1200 Map.empty (Num 0) None)\<lparr>isRunning := True, frames := 1,
      lastPipeAt := 1390, pipes := [\<lparr>pipe_x = 800, pipe_width = 70, topHeight = 100, gap = 300, passed = False\<rparr>]\<rparr>) \<and>
   map pipe_x (pipes (the (run_frame 16 0 0 (onResize 360 540
      ((init_game 800 1200 Map.empty (Num 0) None)\<lparr>isRunning := True, frames := 1,
      lastPipeAt := 1390, pipes := [\<lparr>pipe_x = 800, pipe_width = 70, topHeight = 100, gap = 300, passed = False\<rparr>]\<rparr>)))))
     = [797.4, 430]"
proof -
  let ?g = "(init_game 800 1200 Map.empty (Num 0) None)\<lparr>isRunning := True, frames := 1,
      lastPipeAt := 1390, pipes := [\<lparr>pipe_x = 800, pipe_width = 70, topHeight = 100, gap = 300, passed = False\<rparr>]\<rparr>"
  have o: "pipes_ordered ?g"
    by (simp add: pipes_ordered_def desired_dims_def game_consts)
  have "pipes (the (run_frame 16 0 0 (onResize 360 540 ?g))) = pipes (spawn_step 16 0 0 (tick_pipes
      (background_step (physics ((onResize 360 540 ?g)\<lparr>frames := 0, lastTimestamp := 16\<rparr>)))))"
    by (simp add: run_frame_def gameLoop_Some Let_def frame_dt_def game_consts onResize_def)
  also have "map pipe_x \<dots> = [797.4, 430]"
    by (simp add: spawn_step_pipes tick_pipes_pipes tick_pipes_frame background_step_frame
        physics_frame spawnPipe_def survivors_def offscreen_def scroll_pipe_def mark_passed_def
        game_consts onResize_def resizeCanvas_def desired_dims_def assign_dims_def init_game_def
        default_canvas_def Let_def)
  finally show ?thesis using o by simp
qed

end
