(* ===== verification/Loading.thy ===== *)
theory Loading
  imports Assets
begin

text \<open>
  \<open>waitForImages\<close> (\<open>part_000\<close>, lines 547--564): until the background has loaded or the
  teeth image has completed, it paints a \<open>LOADING...\<close> screen and polls again 100 ms
  later with \<open>setTimeout\<close>; then it draws the landing page.  The browser's events are a
  timed trace, a list of \<open>(time, event)\<close> pairs in the order delivered, times in whole
  milliseconds; \<open>assets_at\<close> is the loader's state at a time (the events delivered up to
  it).  Timers are taken to fire exactly on time.  The loop is a
  \<open>partial_function (option)\<close>: \<open>None\<close> is a poll that never ends.  The result is the
  time at which \<open>drawLanding\<close> is called and the number of \<open>LOADING...\<close> screens
  painted before.
\<close>

type_synonym timed_trace = "(nat \<times> asset_event) list"

definition delivered :: "timed_trace \<Rightarrow> nat \<Rightarrow> asset_event list" where
  "delivered tr t = map snd (takeWhile (\<lambda>(s, e). s \<le> t) tr)"

definition assets_at :: "timed_trace \<Rightarrow> assets \<Rightarrow> nat \<Rightarrow> assets" where
  "assets_at tr a0 t = asset_run (delivered tr t) a0"

definition POLL_MS :: nat where "POLL_MS = 100"

partial_function (option) waitForImages ::
  "timed_trace \<Rightarrow> assets \<Rightarrow> nat \<Rightarrow> nat \<Rightarrow> (nat \<times> nat) option" where
  "waitForImages tr a0 t n =
     (if images_ready (assets_at tr a0 t) then Some (t, n)
      else waitForImages tr a0 (t + POLL_MS) (Suc n))"

lemma delivered_mono: "t \<le> t' \<Longrightarrow> \<exists>ys. delivered tr t' = delivered tr t @ ys"
  by (induction tr) (auto simp: delivered_def)

lemma delivered_all: "\<exists>ys. map snd tr = delivered tr t @ ys"
proof -
  have "map snd tr = map snd (takeWhile (\<lambda>(s, e). s \<le> t) tr) @
          map snd (dropWhile (\<lambda>(s, e). s \<le> t) tr)"
    by (simp flip: map_append)
  then show ?thesis by (auto simp: delivered_def)
qed

lemma ready_later:
  "images_ready (assets_at tr a0 t) \<Longrightarrow> t \<le> t' \<Longrightarrow> images_ready (assets_at tr a0 t')"
  using delivered_mono [of t t' tr]
  by (auto simp: assets_at_def asset_run_append images_ready_run)

lemma ready_at_end:
  "images_ready (assets_at tr a0 t) \<Longrightarrow> images_ready (asset_run (map snd tr) a0)"
  using delivered_all [of tr t]
  by (auto simp: assets_at_def asset_run_append images_ready_run)

lemma waitForImages_ready: "images_ready (assets_at tr a0 t) \<Longrightarrow> waitForImages tr a0 t n = Some (t, n)"
  by (simp add: waitForImages.simps)

lemma waitForImages_poll:
  "\<not> images_ready (assets_at tr a0 t) \<Longrightarrow>
   waitForImages tr a0 t n = waitForImages tr a0 (t + POLL_MS) (Suc n)"
  by (subst waitForImages.simps) simp

lemma waitForImages_within:
  assumes "images_ready (assets_at tr a0 T)" "T \<le> t + POLL_MS * k"
  shows "\<exists>j\<le>k. waitForImages tr a0 t n = Some (t + POLL_MS * j, n + j) \<and>
           (\<forall>i<j. \<not> images_ready (assets_at tr a0 (t + POLL_MS * i)))"
  using assms(2)
proof (induction k arbitrary: t n)
  case 0
  then have "images_ready (assets_at tr a0 t)" using ready_later [OF assms(1)] by simp
  then show ?case by (auto simp: waitForImages_ready)
next
  case (Suc k)
  show ?case
  proof (cases "images_ready (assets_at tr a0 t)")
    case True
    then show ?thesis by (auto simp: waitForImages_ready)
  next
    case False
    have "T \<le> t + POLL_MS + POLL_MS * k" using Suc.prems by simp
    then obtain j where "j \<le> k"
      and w: "waitForImages tr a0 (t + POLL_MS) (Suc n) = Some (t + POLL_MS + POLL_MS * j, Suc n + j)"
      and nr: "\<forall>i<j. \<not> images_ready (assets_at tr a0 (t + POLL_MS + POLL_MS * i))"
      using Suc.IH by blast
    have "\<forall>i<Suc j. \<not> images_ready (assets_at tr a0 (t + POLL_MS * i))"
    proof (intro allI impI)
      fix i assume "i < Suc j"
      then show "\<not> images_ready (assets_at tr a0 (t + POLL_MS * i))"
        using False nr by (cases i) (simp_all add: algebra_simps)
    qed
    with False w \<open>j \<le> k\<close> show ?thesis
      by (intro exI [of _ "Suc j"]) (simp add: waitForImages_poll algebra_simps)
  qed
qed

lemma waitForImages_returns_ready:
  assumes "waitForImages tr a0 t n = Some r"
  shows "images_ready (asset_run (map snd tr) a0)"
proof (rule waitForImages.raw_induct [where P = "\<lambda>tr a0 t n r. images_ready (asset_run (map snd tr) a0)", OF _ assms])
  fix f tr a0 t n r
  assume IH: "\<And>tr a0 t n r. f tr a0 t n = Some r \<Longrightarrow> images_ready (asset_run (map snd tr) a0)"
    and eq: "(if images_ready (assets_at tr a0 t) then Some (t, n) else f tr a0 (t + POLL_MS) (Suc n))
      = Some r"
  show "images_ready (asset_run (map snd tr) a0)"
  proof (cases "images_ready (assets_at tr a0 t)")
    case True
    then show ?thesis by (rule ready_at_end)
  next
    case False
    with eq IH show ?thesis by simp
  qed
qed

lemma assets_at_end: "assets_at tr a0 (sum_list (map fst tr)) = asset_run (map snd tr) a0"
proof -
  have "\<forall>x\<in>set tr. fst x \<le> sum_list (map fst tr)"
  proof
    fix x assume "x \<in> set tr"
    then have "fst x \<in> set (map fst tr)" by simp
    then show "fst x \<le> sum_list (map fst tr)" by (simp add: member_le_sum_list)
  qed
  then have tw: "takeWhile (\<lambda>(s, e). s \<le> sum_list (map fst tr)) tr = tr"
    unfolding takeWhile_eq_all_conv by auto
  show ?thesis unfolding assets_at_def delivered_def tw ..
qed

text \<open>
  C14: \<open>waitForImages\<close> returns exactly when the delivered events eventually make the
  images ready (the background loaded, or the teeth image loaded or failed); otherwise it
  paints \<open>LOADING...\<close> forever.
\<close>

theorem waitForImages_returns_iff:
  "(\<exists>r. waitForImages tr a0 t n = Some r) \<longleftrightarrow> images_ready (asset_run (map snd tr) a0)"
proof
  assume "\<exists>r. waitForImages tr a0 t n = Some r"
  then show "images_ready (asset_run (map snd tr) a0)" using waitForImages_returns_ready by blast
next
  assume "images_ready (asset_run (map snd tr) a0)"
  then have r: "images_ready (assets_at tr a0 (sum_list (map fst tr)))" by (simp add: assets_at_end)
  have "sum_list (map fst tr) \<le> t + POLL_MS * sum_list (map fst tr)" by (simp add: POLL_MS_def)
  from waitForImages_within [OF r this] show "\<exists>r. waitForImages tr a0 t n = Some r" by blast
qed

text \<open>
  C15: once the images are ready at time \<open>T\<close>, a poll started at \<open>t \<le> T\<close> draws the
  landing page at its first tick at or after \<open>T\<close>, less than 100 ms after \<open>T\<close>, having
  painted one \<open>LOADING...\<close> screen per earlier tick.
\<close>

theorem waitForImages_latency:
  assumes "images_ready (assets_at tr a0 T)" "t \<le> T"
  shows "\<exists>j. waitForImages tr a0 t n = Some (t + POLL_MS * j, n + j) \<and> t + POLL_MS * j < T + POLL_MS"
proof -
  have "T \<le> t + POLL_MS * (T - t)" using assms(2) by (simp add: POLL_MS_def)
  from waitForImages_within [OF assms(1) this] obtain j where
    w: "waitForImages tr a0 t n = Some (t + POLL_MS * j, n + j)"
    and nr: "\<forall>i<j. \<not> images_ready (assets_at tr a0 (t + POLL_MS * i))" by blast
  have "t + POLL_MS * j < T + POLL_MS"
  proof (cases j)
    case 0
    then show ?thesis using assms(2) by (simp add: POLL_MS_def)
  next
    case (Suc i)
    with nr have "\<not> images_ready (assets_at tr a0 (t + POLL_MS * i))" by simp
    then have "t + POLL_MS * i < T" using ready_later [OF assms(1)] by (meson not_le)
    with Suc show ?thesis by simp
  qed
  with w show ?thesis by blast
qed

theorem waitForImages_latency_witness:
  "images_ready (assets_at [(30, BgError), (250, GroundError)] (init_assets None) 250) \<and>
   0 \<le> (250::nat) \<and>
   (\<exists>j. waitForImages [(30, BgError), (250, GroundError)] (init_assets None) 0 0 =
      Some (0 + POLL_MS * j, 0 + j) \<and> 0 + POLL_MS * j < 250 + POLL_MS) \<and>
   waitForImages [(30, BgError), (250, GroundError)] (init_assets None) 0 0 = Some (300, 3)"
proof -
  let ?tr = "[(30, BgError), (250, GroundError)]"
  have r: "images_ready (assets_at ?tr (init_assets None) 250)"
    by (simp add: assets_at_def delivered_def images_ready_def init_assets_def bg_onerror_def)
  have nr: "\<not> images_ready (assets_at ?tr (init_assets None) t)" if "t < 250" for t
    using that by (simp add: assets_at_def delivered_def images_ready_def init_assets_def bg_onerror_def)
  have "waitForImages ?tr (init_assets None) 0 0 = Some (300, 3)"
    using nr [of 0] nr [of 100] nr [of 200] ready_later [OF r, of 300]
    by (simp add: waitForImages_poll waitForImages_ready POLL_MS_def)
  then show ?thesis using r waitForImages_latency [OF r, of 0 0] by simp
qed

end
