(* ===== verification/Button.thy ===== *)
theory Button
  imports Prelude
begin

text \<open>
  The start page's button (\<open>src/show-off-project1/script.js\<close>): hovering plays the
  button's background video, leaving pauses it and rewinds it to 0, and a click fades the
  page body out (\<open>opacity 0.5s\<close>) and navigates to the game after a 500 ms timer.
  The page is a record of the state the handlers write: whether the video plays, its
  \<open>currentTime\<close>, the body's \<open>transition\<close> and \<open>opacity\<close> styles, the pending
  navigation timers and the location navigated to (\<open>None\<close> while the page is shown).
  Video playback while playing is the event \<open>Elapse\<close>.  \<open>play()\<close> is assumed to
  succeed (the autoplay policy of the browser is not modelled).
\<close>

record page =
  video_playing :: bool
  video_time :: real
  body_transition :: string
  body_opacity :: string
  nav_timers :: nat
  location :: "string option"

datatype page_event = MouseEnter | MouseLeave | Click | TimerFires | Elapse real

definition GAME_URL :: string where
  "GAME_URL = ''show-off-project/index.html''"

definition init_page :: page where
  "init_page = \<lparr>video_playing = False, video_time = 0, body_transition = '''', body_opacity = ''1'',
     nav_timers = 0, location = None\<rparr>"

definition on_mouseenter :: "page \<Rightarrow> page" where
  "on_mouseenter pg = pg\<lparr>video_playing := True\<rparr>"

definition on_mouseleave :: "page \<Rightarrow> page" where
  "on_mouseleave pg = pg\<lparr>video_playing := False, video_time := 0\<rparr>"

definition on_click :: "page \<Rightarrow> page" where
  "on_click pg =
     pg\<lparr>body_transition := ''opacity 0.5s ease-out'', body_opacity := ''0'',
        nav_timers := Suc (nav_timers pg)\<rparr>"

definition on_timer :: "page \<Rightarrow> page" where
  "on_timer pg = pg\<lparr>nav_timers := nav_timers pg - 1, location := Some GAME_URL\<rparr>"

definition elapse :: "real \<Rightarrow> page \<Rightarrow> page" where
  "elapse d pg = (if video_playing pg then pg\<lparr>video_time := video_time pg + d\<rparr> else pg)"

text \<open>
  Events are handled only while the page is shown; a timer fires only if one is pending.
\<close>

fun page_step :: "page_event \<Rightarrow> page \<Rightarrow> page option" where
  "page_step e pg =
     (if location pg \<noteq> None then None
      else case e of
        MouseEnter \<Rightarrow> Some (on_mouseenter pg)
      | MouseLeave \<Rightarrow> Some (on_mouseleave pg)
      | Click \<Rightarrow> Some (on_click pg)
      | TimerFires \<Rightarrow> (if nav_timers pg = 0 then None else Some (on_timer pg))
      | Elapse d \<Rightarrow> (if 0 \<le> d then Some (elapse d pg) else None))"

fun page_run :: "page_event list \<Rightarrow> page \<Rightarrow> page option" where
  "page_run [] pg = Some pg"
| "page_run (e # es) pg = (case page_step e pg of None \<Rightarrow> None | Some pg' \<Rightarrow> page_run es pg')"

definition page_inv :: "page \<Rightarrow> bool" where
  "page_inv pg \<longleftrightarrow>
     (if video_playing pg then True else video_time pg = 0) \<and>
     (if nav_timers pg = 0 \<and> location pg = None then True
      else body_opacity pg = ''0'' \<and> body_transition pg = ''opacity 0.5s ease-out'')"

lemma page_inv_init: "page_inv init_page"
  by (simp add: page_inv_def init_page_def)

lemma page_step_inv: "page_step e pg = Some pg' \<Longrightarrow> page_inv pg \<Longrightarrow> page_inv pg'"
  by (cases e)
     (auto simp: page_inv_def on_mouseenter_def on_mouseleave_def on_click_def on_timer_def
        elapse_def split: if_splits)

lemma page_run_inv: "page_run es pg = Some pg' \<Longrightarrow> page_inv pg \<Longrightarrow> page_inv pg'"
  by (induction es arbitrary: pg) (auto simp: page_step_inv split: option.splits)

text \<open>
  C35: the page never navigates without fading out: in every state reached from the start
  page, a pending navigation or a completed one comes with \<open>opacity 0\<close> and the 0.5 s
  opacity transition on the body.
\<close>

theorem page_nav_after_fade:
  assumes "page_run es init_page = Some pg" "location pg \<noteq> None"
  shows "body_opacity pg = ''0'' \<and> body_transition pg = ''opacity 0.5s ease-out''"
  using page_run_inv [OF assms(1) page_inv_init] assms(2) by (simp add: page_inv_def)

theorem page_nav_after_fade_witness:
  "page_run [MouseEnter, Click, TimerFires] init_page =
     Some (on_timer (on_click (on_mouseenter init_page))) \<and>
   location (on_timer (on_click (on_mouseenter init_page))) \<noteq> None \<and>
   body_opacity (on_timer (on_click (on_mouseenter init_page))) = ''0''"
proof -
  have r: "page_run [MouseEnter, Click, TimerFires] init_page =
     Some (on_timer (on_click (on_mouseenter init_page)))"
    and l: "location (on_timer (on_click (on_mouseenter init_page))) \<noteq> None"
    by (simp_all add: init_page_def on_mouseenter_def on_click_def on_timer_def)
  show ?thesis using page_nav_after_fade [OF r l] r l by simp
qed

text \<open>
  C36: every hover starts the video from the beginning: in every state reached from the
  start page, a paused video is at time 0, so the next \<open>mouseenter\<close> plays it from 0.
\<close>

theorem page_hover_rewinds:
  assumes "page_run es init_page = Some pg" "\<not> video_playing pg"
  shows "video_time pg = 0 \<and> page_step MouseEnter pg = (if location pg = None
     then Some (pg\<lparr>video_playing := True\<rparr>) else None)"
  using page_run_inv [OF assms(1) page_inv_init] assms(2)
  by (simp add: page_inv_def on_mouseenter_def)

theorem page_hover_rewinds_witness:
  "page_run [MouseEnter, Elapse 3, MouseLeave] init_page =
     Some (on_mouseleave (elapse 3 (on_mouseenter init_page))) \<and>
   \<not> video_playing (on_mouseleave (elapse 3 (on_mouseenter init_page))) \<and>
   video_time (on_mouseleave (elapse 3 (on_mouseenter init_page))) = 0"
proof -
  have r: "page_run [MouseEnter, Elapse 3, MouseLeave] init_page =
     Some (on_mouseleave (elapse 3 (on_mouseenter init_page)))"
    and n: "\<not> video_playing (on_mouseleave (elapse 3 (on_mouseenter init_page)))"
    by (simp_all add: init_page_def on_mouseenter_def on_mouseleave_def elapse_def)
  show ?thesis using page_hover_rewinds [OF r n] r n by simp
qed

text \<open>
  C37: a click always leads to the game: from every state reached from the start page that
  is still shown, a click followed by its timer navigates to the game's URL.
\<close>

theorem page_click_navigates:
  assumes "page_run es init_page = Some pg" "location pg = None"
  shows "\<exists>pg'. page_run [Click, TimerFires] pg = Some pg' \<and> location pg' = Some GAME_URL"
  using assms(2) by (simp add: on_click_def on_timer_def)

theorem page_click_navigates_witness:
  "page_run [MouseEnter] init_page = Some (on_mouseenter init_page) \<and>
   location (on_mouseenter init_page) = None \<and>
   (\<exists>pg'. page_run [Click, TimerFires] (on_mouseenter init_page) = Some pg' \<and> location pg' = Some GAME_URL)"
proof -
  have r: "page_run [MouseEnter] init_page = Some (on_mouseenter init_page)"
    and l: "location (on_mouseenter init_page) = None"
    by (simp_all add: init_page_def on_mouseenter_def)
  show ?thesis using page_click_navigates [OF r l] r l by simp
qed

text \<open>
  The click handler has no guard against repeated clicks: two clicks before the
  timer fires schedule two navigations, and both timers fire.
\<close>

theorem page_double_click:
  "page_run [Click, Click] init_page = Some (on_click (on_click init_page)) \<and>
   nav_timers (on_click (on_click init_page)) = 2 \<and>
   page_step TimerFires (on_click (on_click init_page)) \<noteq> None"
  by (simp add: init_page_def on_click_def)

end
