(* ===== verification/Spec2Isabelle.thy ===== *)
theory Spec2Isabelle
  imports Loop Loading Button
begin

text \<open>
  \<^bold>\<open>Mouth Trap: a verified model of the game loop.\<close>

  \<^emph>\<open>The program.\<close>  The repository is a browser game written in plain JavaScript.
  \<open>src/unnamed/part_000\<close> is the game script, one closure: canvas sizing
  (\<open>resizeCanvas\<close>), image loading, the tuning constants, the game state, \<open>resetGame\<close>,
  \<open>flap\<close>, \<open>spawnPipe\<close>, \<open>rectsOverlap\<close>, \<open>update\<close>, \<open>draw\<close>, \<open>gameLoop\<close>, the
  input listeners, the landing page (\<open>drawLanding\<close>, \<open>startGame\<close>) and
  \<open>waitForImages\<close>.  \<open>src/show-off-project1/script.js\<close> animates the start button of a
  separate page and navigates to the game.  Input listeners call \<open>flap\<close>; the first
  \<open>flap\<close> requests an animation frame, and every \<open>gameLoop\<close> frame calls \<open>update\<close>
  and \<open>draw\<close> and requests the next one.  \<open>update\<close> runs the player physics, scrolls the
  background, walks the pipes (scroll, remove, score, collide) and runs the spawn timer;
  scoring writes the best score to \<open>localStorage\<close>.

  \<^emph>\<open>The theories.\<close>
  \<^item> \<open>Prelude\<close>: the number model (\<^typ>\<open>real\<close>, the \<open>NaN\<close>-able \<open>jsnum\<close>, the
    remainder \<open>js_rem\<close> of \<open>%\<close>) and the shared fact collections.
  \<^item> \<open>Config\<close>: the constants of lines 148--156 and the inline limits (40, -10, 50).
  \<^item> \<open>Geometry\<close>: \<open>rectsOverlap\<close> and its abstract meaning \<open>rect_interior\<close>.
  \<^item> \<open>Canvas\<close>: \<open>resizeCanvas\<close> on the two canvases' sizes, counting the bitmap
    resets that assigning a size causes (\<open>cv_resets\<close>).
  \<^item> \<open>Storage\<close>: \<open>localStorage\<close> as a map, \<open>Number(...)\<close> (\<open>str_to_number\<close>, exact
    on a stated fragment) and \<open>String(n)\<close> (\<open>string_of_nat\<close>), reading and writing the
    best score (\<open>load_best\<close>, \<open>persist_best\<close>).
  \<^item> \<open>State\<close>: the closure's variables as the record \<open>game\<close>, the obstacle object as the
    record \<open>pipe\<close>, the initial state \<open>init_game\<close> and \<open>resetGame\<close>.
  \<^item> \<open>Physics\<close>: the first block of \<open>update\<close> (\<open>physics\<close>, \<open>groundY\<close>).
  \<^item> \<open>Pipes\<close>: \<open>spawnPipe\<close>, one iteration of the pipe loop (\<open>pipe_at\<close>, with
    \<open>scroll_pipe\<close>, \<open>offscreen\<close>, \<open>splice1\<close>, \<open>crosses\<close>/\<open>scores\<close>,
    \<open>bump_score\<close>, \<open>collides\<close>), the loop itself (\<open>pipes_loop\<close>) and its functional
    reference \<open>tick_pipes\<close>.
  \<^item> \<open>Assets\<close>: image loading (lines 72--139): each request pending, loaded or
    broken (\<open>img_state\<close>), the loader's variables as the record \<open>assets\<close>, one
    \<open>asset_step\<close> per \<open>load\<close>/\<open>error\<close> event running the handler the code installs
    (\<open>bg_onload\<close>, \<open>bg_onerror\<close> with its single JPEG retry, \<open>ground_onload\<close>).
  \<^item> \<open>Loading\<close>: \<open>waitForImages\<close> (lines 547--564) as a \<open>partial_function (option)\<close>
    polling every 100 ms over a timed trace of image events.
  \<^item> \<open>Update\<close>: \<open>update\<close> (composed of \<open>physics\<close>, \<open>background_step\<close>,
    \<open>pipes_loop\<close>, \<open>spawn_step\<close>) and the world invariant \<open>world_inv\<close> it preserves.
  \<^item> \<open>Render\<close>: what \<open>draw\<close> paints that depends on the state: the pipe
    rectangles with their lips (\<open>pipe_draw_rects\<close>), the sprite's centre
    (\<open>sprite_centre\<close>) and \<open>tilt\<close>, and the disc of radius \<open>MOUTH_SIZE/2\<close>
    the sprite covers at every tilt (\<open>disc_meets_rect\<close>, \<open>disc_in_rotated_square\<close>).
  \<^item> \<open>Draw\<close>: \<open>draw\<close> and \<open>drawLanding\<close> as the list of 2D-context commands they
    issue (\<open>paint\<close>), statement by statement (\<open>pseq\<close>), with \<open>drawImage\<close> throwing
    \<open>InvalidStateError\<close> on a broken image as the HTML standard prescribes.
  \<^item> \<open>Loop\<close>: \<open>gameLoop\<close> (update, then draw, then \<open>requestAnimationFrame\<close>) with
    \<open>frame_dt\<close>, \<open>flap\<close>, the handlers \<open>onKeyDown\<close>, \<open>onPointer\<close>, \<open>startGame\<close>,
    \<open>onResize\<close>, the browser's \<open>run_frame\<close>, the event relation \<open>game_step\<close> (inputs,
    resizes, image events, frames), \<open>reachable\<close>, the invariant \<open>game_inv\<close> and the
    phase abstraction \<open>phase\<close>/\<open>phase_edge\<close>.
  \<^item> \<open>Button\<close>: the start page of \<open>script.js\<close>: the record \<open>page\<close>, one definition
    per listener (\<open>on_mouseenter\<close>, \<open>on_mouseleave\<close>, \<open>on_click\<close>, the timer
    callback \<open>on_timer\<close>), video playback \<open>elapse\<close>, and event sequences
    \<open>page_step\<close>/\<open>page_run\<close> (\<open>None\<close> for an event that cannot happen: any event
    after navigation, a timer that is not pending).
  \<^item> \<open>Spec2Isabelle\<close> (this theory): properties spanning components, the scenarios of
    the specification.

  \<^emph>\<open>How the model corresponds to the code.\<close>  Every operation takes the state and
  returns the new one.  JavaScript numbers are reals: the game only adds, multiplies and
  compares decimal constants, so IEEE-754 rounding (e.g. \<open>2.6 * 30\<close>) is abstracted away;
  \<open>score\<close> is a natural number (it is only reset to 0 and incremented).  The draws of
  \<open>Math.random()\<close> are parameters in \<open>[0, 1)\<close> (the \<open>frame\<close> rule requires it).
  The pipe loop is modelled by index, from the last pipe down, with \<open>splice\<close> as
  \<open>take/drop\<close>; reading \<open>pipes[i]\<close> past the end would throw a \<open>TypeError\<close> and is
  the value \<open>None\<close>, which the theorem \<open>Pipes.pipes_loop_refines\<close> rules out.  Canvas
  sizes are whole pixels.  Timestamps and \<open>performance.now()\<close> are arbitrary reals.
  The page's visibility rules are part of \<open>game_step\<close>: the landing canvas receives
  clicks only while it is shown, the game canvas only after \<open>startGame\<close> (its container
  is displayed by \<open>startGame\<close>); the key listener is on the document.

  \<^emph>\<open>What is proved.\<close>
  \<^item> The pipe loop equals its reference pass and never reads past the end of the array
    it shrinks; \<open>update\<close> runs its four stages in the code's order.
  \<^item> Scoring: a frame adds exactly the number of newly crossed pipes; score plus unpassed
    pipes is conserved up to spawning, so each pipe scores at most once; the best score and
    its stored copy change exactly when the score passes a numeric best; a \<open>NaN\<close> best
    never changes.
  \<^item> Physics: the clamp to \<open>[0, groundY]\<close>, only the ground ends the game, free fall.
  \<^item> Bounds: spawn placement on canvases of at least 360 pixels, the spawn timer (reset to
    0, no carry), the scroll offset in \<open>[0, width)\<close>.
  \<^item> Order: \<open>update\<close> keeps the obstacles sorted by \<open>x\<close>
    (\<open>Update.update_pipes_ordered\<close>); a shrinking resize breaks that order
    (\<open>Loop.resize_breaks_pipe_order\<close>).
  \<^item> Geometry: symmetry and strictness of the overlap test, and that it decides the
    intersection of the rectangles' interiors.
  \<^item> Storage: \<open>Number(String(n)) = n\<close>, and garbage reads as \<open>NaN\<close>.
  \<^item> The state machine: in every reachable state one frame is requested while the game
    runs and none before, unless a broken image made \<open>draw\<close> throw; the stored best
    reads back as \<open>best\<close>, \<open>score \<le> best\<close>; events follow the specification's phases
    \<open>Idle \<rightarrow> Playing \<leftrightarrow> Over\<close>.  A frame requests the next one exactly when
    the game runs and \<open>draw\<close> does not throw, and a loop stopped that way is never
    restarted.
  \<^item> Images: the loader's state stays well formed, at most five events change it (the
    retry cannot loop); \<open>waitForImages\<close> returns exactly when the background has loaded
    or the teeth image has completed, within 100 ms of that moment.
  \<^item> Drawing: \<open>draw\<close> throws exactly on a broken teeth or sprite image; the texts shown
    (score, GAME OVER); the landing page's background fallbacks and its failure on a broken
    teeth image; the background offset is never read; the lips are painted but not
    solid, at every tilt of the sprite.
  \<^item> Canvas: size bounds of \<open>resizeCanvas\<close>.
  \<^item> Start page: navigation only after the fade-out, every hover plays the video from 0,
    a click always leads to the game.
  \<^item> Scenarios (this theory): removal of a scrolled pipe and a collision ending the game.

  \<^emph>\<open>Findings.\<close>  Garbage in storage makes the best score \<open>NaN\<close> for good (the
  specification says it defaults to 0); \<open>spawnPipe\<close> does not guard its placement
  envelope and misplaces gaps on viewports under 330 pixels high; on viewports under 112
  pixels the player is clamped to a negative height; Space pressed on the landing page
  starts the game behind it; the specification's removal scenario ignores the pipe width
  (a pipe scrolled from 0 to -78 is still on screen); the pipe lips are not part of the
  collision test; the start button does not guard against repeated clicks.  A teeth or
  sprite image that fails to load is \<open>complete\<close>, so \<open>drawImage\<close> throws on it: the
  first frame's \<open>draw\<close> throws before \<open>requestAnimationFrame\<close> and the game freezes for
  good (no input restarts it), and the landing page loses its title and button; the
  specification says asset failures are invisible to the simulation.  With no image ever
  ready \<open>waitForImages\<close> polls forever.  \<open>backgroundOffset\<close> is updated every frame and
  never drawn.  After the window shrinks, new pipes spawn left of older ones, against the
  specification's left-to-right order of the obstacles.

  \<^emph>\<open>Not modelled, and why.\<close>  Pixels: fonts, text alignment, shadows and the
  rasterisation of the paint commands.  Timers fire exactly on time and event delivery is
  a trace given in advance; \<open>createPattern\<close>'s success is a parameter of the load event.
  Storage is a map whose update always succeeds: a \<open>QuotaExceededError\<close> thrown by
  \<open>localStorage.setItem\<close> (line 285) inside \<open>update\<close> is not modelled.  The
  transparency of the sprite image is unknown, so the disc the sprite covers is exact for
  the fallback circle and holds for the image where it is opaque.  The page's HTML is not
  under \<open>src\<close>: that the game container is hidden until \<open>startGame\<close> is assumed
  from the code.  In the start page, the end of the video and the browser's autoplay policy
  (\<open>play()\<close> may be refused) are not modelled.  Every loop of the game except
  \<open>waitForImages\<close> is a structural recursion (the pipe loop over its index) or has a
  measure (the sky stripes); \<open>waitForImages\<close> is
  a \<open>partial_function (option)\<close>, and \<open>waitForImages_returns_iff\<close> says exactly when it
  returns, so no fuel bound is needed.
\<close>

subsection \<open>Scenarios of the specification\<close>

text \<open>
  C32: the specification's removal scenario, as the code behaves: a pipe of width 70
  scrolled from \<open>x = 0\<close> for 30 frames is at \<open>x = -78\<close> and still on screen, since
  removal needs \<open>x + width < -10\<close>; only the 31st frame removes it.
\<close>

theorem pipe_removal_scenario:
  assumes "pipes g = [p]" "pipe_x p = 0" "pipe_width p = PIPE_WIDTH"
  shows "map pipe_x (pipes ((tick_pipes ^^ 30) g)) = [-78] \<and> pipes ((tick_pipes ^^ 31) g) = []"
proof -
  have "REMOVAL_X \<le> pipe_x p - real 30 * SCROLL_SPEED + pipe_width p"
    using assms(2,3) by (simp add: game_consts)
  then obtain q where q: "pipes ((tick_pipes ^^ 30) g) = [q]" "pipe_x q = -78" "pipe_width q = 70"
    using tick_pipes_single [OF assms(1)] assms(2,3) by (force simp: game_consts)
  have "offscreen (scroll_pipe q)" using q(2,3) by (simp add: offscreen_def scroll_pipe_def game_consts)
  then have "pipes (tick_pipes ((tick_pipes ^^ 30) g)) = []"
    by (simp add: tick_pipes_pipes survivors_def q(1))
  moreover have "(tick_pipes ^^ 31) g = tick_pipes ((tick_pipes ^^ 30) g)"
    using funpow.simps(2) [of 30 tick_pipes] by (simp add: numeral_Bit1)
  ultimately show ?thesis using q by simp
qed


theorem pipe_removal_scenario_witness:
  "pipes (demo_running\<lparr>pipes := [\<lparr>pipe_x = 0, pipe_width = 70, topHeight = 100, gap = 150, passed = True\<rparr>]\<rparr>) =
     [\<lparr>pipe_x = 0, pipe_width = 70, topHeight = 100, gap = 150, passed = True\<rparr>] \<and>
   pipe_x \<lparr>pipe_x = 0, pipe_width = 70, topHeight = 100, gap = 150, passed = True\<rparr> = 0 \<and>
   pipe_width \<lparr>pipe_x = 0, pipe_width = 70, topHeight = 100, gap = 150, passed = True\<rparr> = PIPE_WIDTH \<and>
   map pipe_x (pipes ((tick_pipes ^^ 30)
     (demo_running\<lparr>pipes := [\<lparr>pipe_x = 0, pipe_width = 70, topHeight = 100, gap = 150, passed = True\<rparr>]\<rparr>))) = [-78] \<and>
   pipes ((tick_pipes ^^ 31)
     (demo_running\<lparr>pipes := [\<lparr>pipe_x = 0, pipe_width = 70, topHeight = 100, gap = 150, passed = True\<rparr>]\<rparr>)) = []"
  using pipe_removal_scenario [of "demo_running\<lparr>pipes := [\<lparr>pipe_x = 0, pipe_width = 70, topHeight = 100, gap = 150, passed = True\<rparr>]\<rparr>"
      "\<lparr>pipe_x = 0, pipe_width = 70, topHeight = 100, gap = 150, passed = True\<rparr>"]
  by (simp add: game_consts)

text \<open>
  C38: a collision ends the game in the same frame: if a pipe that stays on screen overlaps
  the player at the position the physics step has just computed, the frame ends the game
  (the collision test uses the post-integration position).
\<close>

theorem update_collision_ends_game:
  assumes "update dt r1 r2 g = Some g'" "\<not> isGameOver g"
    "p \<in> set (survivors (pipes g))" "collides (physics g) p"
  shows "isGameOver g'"
proof -
  have g': "g' = spawn_step dt r1 r2 (tick_pipes (background_step (physics g)))"
    using assms(1,2) by (simp add: update_Some)
  have "list_ex (collides (background_step (physics g))) (survivors (pipes (background_step (physics g))))"
    using assms(3,4) by (auto simp: list_ex_iff background_step_frame physics_frame)
  then show ?thesis by (simp add: g' spawn_step_frame tick_pipes_game_over)
qed

theorem update_collision_ends_game_witness:
  "\<exists>g'. update 16 0 0 ((init_game 800 1200 Map.empty (Num 0) None)\<lparr>isRunning := True, frames := 1,
        mouthX := 400, mouthY := 50,
        pipes := [\<lparr>pipe_x = 402.6, pipe_width = 70, topHeight = 100, gap = 150, passed = False\<rparr>]\<rparr>) = Some g' \<and>
     isGameOver g'"
proof -
  let ?g = "(init_game 800 1200 Map.empty (Num 0) None)\<lparr>isRunning := True, frames := 1,
        mouthX := 400, mouthY := 50,
        pipes := [\<lparr>pipe_x = 402.6, pipe_width = 70, topHeight = 100, gap = 150, passed = False\<rparr>]\<rparr>"
  let ?p = "\<lparr>pipe_x = 400, pipe_width = 70, topHeight = 100, gap = 150, passed = False\<rparr>"
  let ?g' = "spawn_step 16 0 0 (tick_pipes (background_step (physics ?g)))"
  have u: "update 16 0 0 ?g = Some ?g'" by (simp add: update_Some)
  have h: "\<not> isGameOver ?g" "?p \<in> set (survivors (pipes ?g))" "collides (physics ?g) ?p"
    by (simp_all add: survivors_def scroll_pipe_def offscreen_def collides_def rectsOverlap_def
        physics_def groundY_def desired_dims_def game_consts Let_def)
  show ?thesis using update_collision_ends_game [OF u h] u by blast
qed

end
